theory Spec2Isabelle
  imports Complex_Main "HOL-Library.Sublist"
begin

section \<open>JavaScript values\<close>

text \<open>
  The model's output, request bodies and everything \<^verbatim>\<open>JSON.parse\<close> returns are
  JavaScript values of unchecked shape (the source casts them with \<^verbatim>\<open>as T\<close>).
  A number is a finite double, embedded in the rationals (\<^verbatim>\<open>NaN\<close> and the
  infinities never come out of \<^verbatim>\<open>JSON.parse\<close>). A \<^typ>\<open>char\<close> stands for a UTF-16
  code unit below 256. An object is the association list of its own properties, read
  with \<^const>\<open>map_of\<close>.
\<close>

datatype jsval =
    JUndefined
  | JNull
  | JBool bool
  | JNum rat
  | JStr string
  | JArr "jsval list"
  | JObj "(string \<times> jsval) list"

datatype failure = SyntaxError | TypeError | AIError | StorageError | WorkflowError

text \<open>\<^verbatim>\<open>!v\<close> is false exactly on the truthy values.\<close>

fun truthy :: "jsval \<Rightarrow> bool" where
  "truthy JUndefined = False"
| "truthy JNull = False"
| "truthy (JBool b) = b"
| "truthy (JNum n) = (n \<noteq> 0)"
| "truthy (JStr s) = (s \<noteq> [])"
| "truthy (JArr xs) = True"
| "truthy (JObj kvs) = True"

fun nullish :: "jsval \<Rightarrow> bool" where
  "nullish JUndefined = True"
| "nullish JNull = True"
| "nullish v = False"

text \<open>\<^verbatim>\<open>a ?? b\<close>\<close>

definition coalesce :: "jsval \<Rightarrow> jsval \<Rightarrow> jsval" where
  "coalesce a b = (if nullish a then b else a)"

text \<open>
  \<^verbatim>\<open>v.name\<close> on a value that is neither \<^verbatim>\<open>null\<close> nor \<^verbatim>\<open>undefined\<close>
  (every use in the source is guarded, or is written out as a \<^const>\<open>TypeError\<close>
  where it is not). The source reads only the fixed names \<^verbatim>\<open>reply\<close>,
  \<^verbatim>\<open>followUps\<close>, \<^verbatim>\<open>length\<close>, \<^verbatim>\<open>response\<close>, ..., none of which is
  inherited from a prototype except \<^verbatim>\<open>length\<close> of arrays and strings.
\<close>

fun getProp :: "jsval \<Rightarrow> string \<Rightarrow> jsval" where
  "getProp (JObj kvs) name = (case map_of kvs name of Some v \<Rightarrow> v | None \<Rightarrow> JUndefined)"
| "getProp (JArr xs) name = (if name = ''length'' then JNum (of_nat (length xs)) else JUndefined)"
| "getProp (JStr s) name = (if name = ''length'' then JNum (of_nat (length s)) else JUndefined)"
| "getProp v name = JUndefined"

text \<open>\<^verbatim>\<open>v?.name\<close>\<close>

definition optProp :: "jsval \<Rightarrow> string \<Rightarrow> jsval" where
  "optProp v name = (if nullish v then JUndefined else getProp v name)"

text \<open>\<^verbatim>\<open>Array.isArray(v) ? v : dflt\<close>, as the list of elements.\<close>

fun arrayOr :: "jsval \<Rightarrow> jsval list \<Rightarrow> jsval list" where
  "arrayOr (JArr xs) dflt = xs"
| "arrayOr v dflt = dflt"

fun isArray :: "jsval \<Rightarrow> bool" where
  "isArray (JArr xs) = True"
| "isArray v = False"

section \<open>String primitives\<close>

text \<open>\<^verbatim>\<open>text.indexOf(pat)\<close>: the first position of \<open>pat\<close>, or \<open>-1\<close>.\<close>

fun indexOf :: "string \<Rightarrow> string \<Rightarrow> int" where
  "indexOf [] pat = (if pat = [] then 0 else - 1)"
| "indexOf (c # cs) pat =
     (if prefix pat (c # cs) then 0
      else (let r = indexOf cs pat in if r = - 1 then - 1 else r + 1))"

text \<open>\<^verbatim>\<open>text.lastIndexOf(pat)\<close>: the last position of \<open>pat\<close>, or \<open>-1\<close>.\<close>

fun lastIndexOf :: "string \<Rightarrow> string \<Rightarrow> int" where
  "lastIndexOf [] pat = (if pat = [] then 0 else - 1)"
| "lastIndexOf (c # cs) pat =
     (let r = lastIndexOf cs pat in
      if r \<noteq> - 1 then r + 1 else if prefix pat (c # cs) then 0 else - 1)"

text \<open>
  \<^verbatim>\<open>text.slice(a, b)\<close> for \<open>0 \<le> a\<close> and \<open>0 \<le> b\<close>: empty when \<open>b \<le> a\<close>,
  cut at the end of the text.
\<close>

definition slice :: "'a list \<Rightarrow> int \<Rightarrow> int \<Rightarrow> 'a list" where
  "slice xs a b = take (nat b - nat a) (drop (nat a) xs)"

text \<open>The white space and line terminators below 256 that \<^verbatim>\<open>trim\<close> strips.\<close>

definition isSpace :: "char \<Rightarrow> bool" where
  "isSpace c = (c \<in> {CHR 0x09, CHR 0x0A, CHR 0x0B, CHR 0x0C, CHR 0x0D, CHR 0x20, CHR 0xA0})"

definition trim :: "string \<Rightarrow> string" where
  "trim s = rev (dropWhile isSpace (rev (dropWhile isSpace s)))"

definition startsWith :: "string \<Rightarrow> string \<Rightarrow> bool" where
  "startsWith s pat = prefix pat s"

section \<open>Platform bindings\<close>

text \<open>
  What a prompt is built from. The prompt is only an argument of \<^verbatim>\<open>env.AI.run\<close>,
  whose answer is a parameter here, so the template text is not spelled out; a failure
  of \<open>AI_run\<close> also stands for an exception while its prompt is formatted.
\<close>

datatype role = User | Assistant

record message =
  role :: role
  content :: jsval

record DealMemory =
  customerName :: jsval
  company :: jsval
  industry :: jsval
  painPoints :: "jsval list"
  budget :: jsval
  timeline :: jsval
  objections :: "jsval list"
  nextSteps :: "jsval list"

datatype prompt =
    ChatPrompt jsval DealMemory "message list"
  | MemPrompt DealMemory jsval "message list"
  | SumPrompt "message list"
  | ActPrompt "jsval list"
  | EmailPrompt "jsval list" "jsval list"

text \<open>The places where the source calls the Durable Object's storage.\<close>

datatype site =
    ChatLoad | ChatSave | ChatFallbackLoad | StateLoad | SaveFinalLoad | SaveFinalSave
  | ResetDeleteAll

text \<open>
  The platform, as far as one request sees it: the inference binding, the built-in JSON
  functions (\<open>None\<close> is a thrown exception), whether the storage call at a site
  succeeds (a failed call leaves the storage as it was), the Durable Object namespace
  and the workflow binding.
\<close>

record env =
  AI_run :: "prompt \<Rightarrow> failure + jsval"
  JSON_parse :: "string \<Rightarrow> jsval option"
  JSON_stringify :: "jsval \<Rightarrow> string option"
  storage_ok :: "site \<Rightarrow> bool"
  idFromName :: "jsval \<Rightarrow> string"
  FINALIZE_CALL_create :: "jsval \<Rightarrow> failure + string"

section \<open>Helper functions of salesAgentDO.ts\<close>

definition lastN :: "'a list \<Rightarrow> nat \<Rightarrow> 'a list" where
  "lastN arr n = drop (length arr - n) arr"

definition safeJsonParse :: "env \<Rightarrow> string \<Rightarrow> jsval" where
  "safeJsonParse e t = (case JSON_parse e t of Some v \<Rightarrow> v | None \<Rightarrow> JNull)"

definition normalizeAIText :: "env \<Rightarrow> jsval \<Rightarrow> string" where
  "normalizeAIText e output =
     (if \<not> truthy output then []
      else case output of JStr s \<Rightarrow> s
      | _ \<Rightarrow>
        (case getProp output ''response'' of JStr s \<Rightarrow> s
         | _ \<Rightarrow>
           (case getProp output ''output_text'' of JStr s \<Rightarrow> s
            | _ \<Rightarrow>
              (case optProp (getProp output ''result'') ''response'' of JStr s \<Rightarrow> s
               | _ \<Rightarrow>
                 (case JSON_stringify e output of Some s \<Rightarrow> s | None \<Rightarrow> [])))))"

definition extractBetween :: "string \<Rightarrow> string \<Rightarrow> string \<Rightarrow> string option" where
  "extractBetween t startTag endTag =
     (let startIndex = indexOf t startTag; endIndex = lastIndexOf t endTag in
      if startIndex = - 1 \<or> endIndex = - 1 \<or> endIndex \<le> startIndex then None
      else Some (trim (slice t (startIndex + int (length startTag)) endIndex)))"

definition extractJsonObject :: "string \<Rightarrow> string option" where
  "extractJsonObject t =
     (let start = indexOf t ''{''; end = lastIndexOf t ''}'' in
      if start = - 1 \<or> end = - 1 \<or> end \<le> start then None
      else Some (slice t start (end + 1)))"

text \<open>
  \<^verbatim>\<open>extractBetween(t, "<json>", "</json>") ?? extractJsonObject(t)\<close>, then
  \<^verbatim>\<open>safeJsonParse(jsonStr || "")\<close>.
\<close>

definition extractJson :: "string \<Rightarrow> string" where
  "extractJson t =
     (case (case extractBetween t ''<json>'' ''</json>'' of
              Some j \<Rightarrow> Some j | None \<Rightarrow> extractJsonObject t) of
        Some j \<Rightarrow> j | None \<Rightarrow> [])"

section \<open>The session state and its store\<close>

record AgentState =
  messages :: "message list"
  dealMemory :: DealMemory
  rollingSummary :: jsval
  userTurnCount :: nat
  final :: jsval

definition DEFAULT_DEAL_MEMORY :: DealMemory where
  "DEFAULT_DEAL_MEMORY =
     \<lparr>customerName = JStr [], company = JStr [], industry = JStr [], painPoints = [],
      budget = JStr [], timeline = JStr [], objections = [], nextSteps = []\<rparr>"

text \<open>
  One Durable Object, as a request to it sees it: what its storage holds under the key
  \<^verbatim>\<open>"state"\<close> (only \<^verbatim>\<open>save\<close> writes it, so it is a whole \<^typ>\<open>AgentState\<close>,
  stored as a structured clone), and the contents of the array
  \<^verbatim>\<open>DEFAULT_STATE.messages\<close>. That array is a module-level object, one for all the
  objects of the isolate: \<^verbatim>\<open>{ ...DEFAULT_STATE }\<close> copies the reference, not the array,
  so a \<^verbatim>\<open>push\<close> on the messages of a state loaded from empty storage is a push on
  \<^verbatim>\<open>DEFAULT_STATE.messages\<close> itself. \<^verbatim>\<open>DEFAULT_DEAL_MEMORY\<close> is shared the same way
  but never mutated: the merge assigns a new object.
\<close>

record DOState =
  DEFAULT_STATE_messages :: "message list"
  stored :: "AgentState option"

text \<open>
  \<^verbatim>\<open>load\<close>: the state, and whether its \<^verbatim>\<open>messages\<close> is the array
  \<^verbatim>\<open>DEFAULT_STATE.messages\<close> itself. On a record that \<^verbatim>\<open>save\<close> wrote, the
  shape checks of \<^verbatim>\<open>load\<close> pass (the messages are an array, the counter is a
  number, the deal memory has all its fields), so the stored fields are taken as they are;
  \<^verbatim>\<open>rollingSummary ?? ""\<close> is kept. The counter is a natural number: the double
  that holds it counts exactly far beyond any session.
\<close>

definition loaded :: "DOState \<Rightarrow> AgentState \<times> bool" where
  "loaded d =
     (case stored d of
        None \<Rightarrow>
          (\<lparr>messages = DEFAULT_STATE_messages d, dealMemory = DEFAULT_DEAL_MEMORY,
            rollingSummary = JStr [], userTurnCount = 0, final = JUndefined\<rparr>, True)
      | Some t \<Rightarrow>
          (\<lparr>messages = messages t, dealMemory = dealMemory t,
            rollingSummary = coalesce (rollingSummary t) (JStr []),
            userTurnCount = userTurnCount t, final = final t\<rparr>, False))"

definition load :: "env \<Rightarrow> site \<Rightarrow> DOState \<Rightarrow> failure + (AgentState \<times> bool)" where
  "load e st d = (if storage_ok e st then Inr (loaded d) else Inl StorageError)"

definition save :: "env \<Rightarrow> site \<Rightarrow> AgentState \<Rightarrow> DOState \<Rightarrow> failure + DOState" where
  "save e st s d = (if storage_ok e st then Inr (d\<lparr>stored := Some s\<rparr>) else Inl StorageError)"

text \<open>\<^verbatim>\<open>s.messages.push(m)\<close>, on the shared array when \<open>s.messages\<close> is that array.\<close>

definition push :: "bool \<Rightarrow> message \<Rightarrow> AgentState \<Rightarrow> DOState \<Rightarrow> AgentState \<times> DOState" where
  "push shared m s d =
     (s\<lparr>messages := messages s @ [m]\<rparr>,
      if shared then d\<lparr>DEFAULT_STATE_messages := DEFAULT_STATE_messages d @ [m]\<rparr> else d)"

section \<open>Requests and responses\<close>

text \<open>
  A request: its path, its HTTP method, the \<^verbatim>\<open>sessionId\<close> query parameter
  (\<^verbatim>\<open>searchParams.get\<close>) and the outcome of \<^verbatim>\<open>request.json()\<close>.
\<close>

record request =
  pathname :: string
  httpMethod :: string
  query_sessionId :: "string option"
  json :: "failure + jsval"

datatype body =
    Text string
  | ChatBody (reply: jsval) (followUps: jsval) (bodyDealMemory: DealMemory)
      (bodyRollingSummary: jsval) (bodyUserTurnCount: nat)
  | StateBody AgentState
  | OkBody
  | ResetBody
  | WorkflowBody string

record response =
  status :: nat
  body :: body

definition respond_json :: "body \<Rightarrow> response" where
  "respond_json b = \<lparr>status = 200, body = b\<rparr>"

definition not_found :: response where
  "not_found = \<lparr>status = 404, body = Text ''Not found''\<rparr>"

section \<open>The chat handler\<close>

text \<open>
  The three fixed texts. The dash of the default reply is beyond the characters of
  \<^typ>\<open>string\<close>; it is written as its three UTF-8 bytes.
\<close>

definition DEFAULT_REPLY :: string where
  "DEFAULT_REPLY = ''I can help'' @ [CHR 0xE2, CHR 0x80, CHR 0x94]
     @ ''can you tell me what price point you were expecting?''"

definition DEFAULT_FOLLOWUPS :: jsval where
  "DEFAULT_FOLLOWUPS =
     JArr [JStr ''What's driving that concern?'',
           JStr ''What would make this a clear yes for you?'']"

definition APOLOGY :: string where
  "APOLOGY = ''I'm having trouble connecting. Could you repeat that?''"

text \<open>
  Step 5: the value of \<^verbatim>\<open>parsed\<close> after the fallback attempt, for a model answer.
\<close>

definition chatParsed :: "env \<Rightarrow> jsval \<Rightarrow> jsval" where
  "chatParsed e aiResp =
     (let rawText = normalizeAIText e aiResp;
          jsonStr = extractJson rawText;
          parsed0 = safeJsonParse e jsonStr
      in if \<not> truthy parsed0 \<and> \<not> startsWith (trim rawText) ''{''
         then JObj [(''reply'', JStr rawText), (''followUps'', JArr [])]
         else parsed0)"

text \<open>Step 5 and the defaults after it: the reply and the follow-ups of a model answer.\<close>

definition parseChatOutput :: "env \<Rightarrow> jsval \<Rightarrow> jsval \<times> jsval" where
  "parseChatOutput e aiResp =
     (let parsed = chatParsed e aiResp;
          reply = coalesce (optProp parsed ''reply'') (JStr DEFAULT_REPLY);
          followUps = (if optProp (optProp parsed ''followUps'') ''length'' = JNum 2
                       then getProp parsed ''followUps'' else DEFAULT_FOLLOWUPS)
      in (reply, followUps))"

text \<open>The merge of an extraction result into the state.\<close>

definition mergeDealMemory :: "jsval \<Rightarrow> AgentState \<Rightarrow> AgentState" where
  "mergeDealMemory memParsed s =
     (if truthy memParsed then
        s\<lparr>dealMemory :=
            \<lparr>customerName = coalesce (getProp memParsed ''customerName'') (customerName (dealMemory s)),
             company = coalesce (getProp memParsed ''company'') (company (dealMemory s)),
             industry = coalesce (getProp memParsed ''industry'') (industry (dealMemory s)),
             painPoints = arrayOr (getProp memParsed ''painPoints'') (painPoints (dealMemory s)),
             budget = coalesce (getProp memParsed ''budget'') (budget (dealMemory s)),
             timeline = coalesce (getProp memParsed ''timeline'') (timeline (dealMemory s)),
             objections = arrayOr (getProp memParsed ''objections'') (objections (dealMemory s)),
             nextSteps = arrayOr (getProp memParsed ''nextSteps'') (nextSteps (dealMemory s))\<rparr>,
          rollingSummary := coalesce (getProp memParsed ''rollingSummary'') (rollingSummary s)\<rparr>
      else s)"

text \<open>What the extraction answer parses to (\<open>memParsed\<close>).\<close>

definition memParsedOf :: "env \<Rightarrow> jsval \<Rightarrow> jsval" where
  "memParsedOf e memResp = safeJsonParse e (extractJson (normalizeAIText e memResp))"

text \<open>Step 6: the periodic memory update.\<close>

definition isMemoryTurn :: "AgentState \<Rightarrow> bool" where
  "isMemoryTurn s = (userTurnCount s > 0 \<and> userTurnCount s mod 3 = 0)"

definition memoryUpdate :: "env \<Rightarrow> message list \<Rightarrow> AgentState \<Rightarrow> failure + AgentState" where
  "memoryUpdate e recent s =
     (if isMemoryTurn s then
        (case AI_run e (MemPrompt (dealMemory s) (rollingSummary s) recent) of
           Inl f \<Rightarrow> Inl f
         | Inr memResp \<Rightarrow> Inr (mergeDealMemory (memParsedOf e memResp) s))
      else Inr s)"

text \<open>
  The body of the \<^verbatim>\<open>try\<close>. The Durable Object's state is returned on a failure as
  well: what was pushed on the shared array stays pushed.
\<close>

definition chatTry :: "env \<Rightarrow> request \<Rightarrow> DOState \<Rightarrow> (failure + response) \<times> DOState" where
  "chatTry e r d =
     (case json r of
        Inl f \<Rightarrow> (Inl f, d)
      | Inr b \<Rightarrow>
          if nullish b then (Inl TypeError, d)
          else
            (case load e ChatLoad d of
               Inl f \<Rightarrow> (Inl f, d)
             | Inr (s0, shared) \<Rightarrow>
                 (let (s1, d1) = push shared \<lparr>role = User, content = getProp b ''message''\<rparr> s0 d;
                      s2 = s1\<lparr>userTurnCount := userTurnCount s1 + 1\<rparr>;
                      recent = lastN (messages s2) 10
                  in case AI_run e (ChatPrompt (rollingSummary s2) (dealMemory s2) recent) of
                       Inl f \<Rightarrow> (Inl f, d1)
                     | Inr aiResp \<Rightarrow>
                         (let (reply, followUps) = parseChatOutput e aiResp
                          in case memoryUpdate e recent s2 of
                               Inl f \<Rightarrow> (Inl f, d1)
                             | Inr s3 \<Rightarrow>
                                 (let (s4, d2) = push shared \<lparr>role = Assistant, content = reply\<rparr> s3 d1
                                  in case save e ChatSave s4 d2 of
                                       Inl f \<Rightarrow> (Inl f, d2)
                                     | Inr d3 \<Rightarrow>
                                         (Inr (respond_json
                                            (ChatBody reply followUps (dealMemory s4)
                                               (rollingSummary s4) (userTurnCount s4))), d3))))))"

text \<open>The \<^verbatim>\<open>catch\<close>: the fallback reads the state again, outside any \<^verbatim>\<open>try\<close>.\<close>

definition chatFallback :: "env \<Rightarrow> DOState \<Rightarrow> failure + response" where
  "chatFallback e d =
     (case load e ChatFallbackLoad d of
        Inl f \<Rightarrow> Inl f
      | Inr (s, shared) \<Rightarrow>
          Inr (respond_json (ChatBody (JStr APOLOGY) (JArr []) (dealMemory s) (JStr []) 0)))"

definition chat :: "env \<Rightarrow> request \<Rightarrow> DOState \<Rightarrow> (failure + response) \<times> DOState" where
  "chat e r d =
     (case chatTry e r d of
        (Inr resp, d') \<Rightarrow> (Inr resp, d')
      | (Inl f, d') \<Rightarrow> (chatFallback e d', d'))"

section \<open>The Durable Object's routes\<close>

definition getState :: "env \<Rightarrow> DOState \<Rightarrow> (failure + response) \<times> DOState" where
  "getState e d =
     (case load e StateLoad d of
        Inl f \<Rightarrow> (Inl f, d)
      | Inr (s, shared) \<Rightarrow> (Inr (respond_json (StateBody s)), d))"

definition saveFinal :: "env \<Rightarrow> request \<Rightarrow> DOState \<Rightarrow> (failure + response) \<times> DOState" where
  "saveFinal e r d =
     (case json r of
        Inl f \<Rightarrow> (Inl f, d)
      | Inr b \<Rightarrow>
          if nullish b then (Inl TypeError, d)
          else
            (case load e SaveFinalLoad d of
               Inl f \<Rightarrow> (Inl f, d)
             | Inr (s, shared) \<Rightarrow>
                 (case save e SaveFinalSave (s\<lparr>final := getProp b ''final''\<rparr>) d of
                    Inl f \<Rightarrow> (Inl f, d)
                  | Inr d' \<Rightarrow> (Inr (respond_json OkBody), d'))))"

definition reset :: "env \<Rightarrow> DOState \<Rightarrow> (failure + response) \<times> DOState" where
  "reset e d =
     (if storage_ok e ResetDeleteAll then (Inr (respond_json ResetBody), d\<lparr>stored := None\<rparr>)
      else (Inl StorageError, d))"

definition SalesAgent_fetch :: "env \<Rightarrow> request \<Rightarrow> DOState \<Rightarrow> (failure + response) \<times> DOState" where
  "SalesAgent_fetch e r d =
     (if pathname r = ''/internal/chat'' \<and> httpMethod r = ''POST'' then chat e r d
      else if pathname r = ''/internal/state'' \<and> httpMethod r = ''GET'' then getState e d
      else if pathname r = ''/internal/save-final'' \<and> httpMethod r = ''POST'' then saveFinal e r d
      else if pathname r = ''/internal/reset'' \<and> httpMethod r = ''POST'' then reset e d
      else (Inr not_found, d))"

section \<open>The finalization workflow (workflows.ts)\<close>

text \<open>
  \<^verbatim>\<open>normalizeAIText\<close> and \<^verbatim>\<open>extractJsonObject\<close> of workflows.ts are copies of the
  ones above. Steps 1 and 2 parse alike: \<^verbatim>\<open>extractJsonObject(raw) ?? raw\<close>, then, in a
  \<^verbatim>\<open>try\<close>, \<^verbatim>\<open>JSON.parse\<close> and the array check on one property; the \<^verbatim>\<open>catch\<close>
  leaves the empty list (a parsed \<^verbatim>\<open>null\<close> throws on the property read).
\<close>

definition jsonOrRaw :: "string \<Rightarrow> string" where
  "jsonOrRaw raw = (case extractJsonObject raw of Some j \<Rightarrow> j | None \<Rightarrow> raw)"

definition parseArrayProp :: "env \<Rightarrow> string \<Rightarrow> jsval \<Rightarrow> jsval list" where
  "parseArrayProp e name resp =
     (case JSON_parse e (jsonOrRaw (normalizeAIText e resp)) of
        None \<Rightarrow> []
      | Some parsed \<Rightarrow> if nullish parsed then [] else arrayOr (getProp parsed name) [])"

definition summaryBulletsOf :: "env \<Rightarrow> jsval \<Rightarrow> jsval list" where
  "summaryBulletsOf e sumResp = parseArrayProp e ''summaryBullets'' sumResp"

definition actionItemsOf :: "env \<Rightarrow> jsval \<Rightarrow> jsval list" where
  "actionItemsOf e actResp = parseArrayProp e ''actionItems'' actResp"

definition stateRequest :: request where
  "stateRequest =
     \<lparr>pathname = ''/internal/state'', httpMethod = ''GET'', query_sessionId = None,
      json = Inl SyntaxError\<rparr>"

definition saveFinalRequest :: "jsval \<Rightarrow> request" where
  "saveFinalRequest fin =
     \<lparr>pathname = ''/internal/save-final'', httpMethod = ''POST'', query_sessionId = None,
      json = Inr (JObj [(''final'', fin)])\<rparr>"

text \<open>\<^verbatim>\<open>(await stateResp.json()).messages ?? []\<close>\<close>

fun messagesOfBody :: "body \<Rightarrow> failure + message list" where
  "messagesOfBody (StateBody s) = Inr (messages s)"
| "messagesOfBody (Text t) = Inl SyntaxError"
| "messagesOfBody b = Inr []"

definition Final :: "jsval list \<Rightarrow> jsval list \<Rightarrow> string \<Rightarrow> jsval" where
  "Final summaryBullets actionItems followupEmail =
     JObj [(''summaryBullets'', JArr (slice summaryBullets 0 6)),
           (''actionItems'', JArr actionItems),
           (''followupEmail'', JStr followupEmail)]"

text \<open>
  \<^verbatim>\<open>run\<close>, on the Durable Object of the session. No \<^verbatim>\<open>env.AI.run\<close> call and
  neither \<^verbatim>\<open>stub.fetch\<close> stands in a \<^verbatim>\<open>try\<close>; the email prompt reads
  \<^verbatim>\<open>a.owner\<close> of every action item, which throws on \<^verbatim>\<open>null\<close>.
\<close>

definition FinalizeCallWorkflow_run :: "env \<Rightarrow> jsval \<Rightarrow> DOState \<Rightarrow> (failure + unit) \<times> DOState" where
  "FinalizeCallWorkflow_run e sessionId d =
     (if \<not> truthy sessionId then (Inl WorkflowError, d)
      else case SalesAgent_fetch e stateRequest d of
        (Inl f, d1) \<Rightarrow> (Inl f, d1)
      | (Inr stateResp, d1) \<Rightarrow>
          (case messagesOfBody (body stateResp) of
             Inl f \<Rightarrow> (Inl f, d1)
           | Inr convo \<Rightarrow>
               (case AI_run e (SumPrompt convo) of
                  Inl f \<Rightarrow> (Inl f, d1)
                | Inr sumResp \<Rightarrow>
                    (let summaryBullets = summaryBulletsOf e sumResp
                     in case AI_run e (ActPrompt summaryBullets) of
                          Inl f \<Rightarrow> (Inl f, d1)
                        | Inr actResp \<Rightarrow>
                            (let actionItems = actionItemsOf e actResp
                             in if list_ex nullish actionItems then (Inl TypeError, d1)
                                else case AI_run e (EmailPrompt summaryBullets actionItems) of
                                  Inl f \<Rightarrow> (Inl f, d1)
                                | Inr emailResp \<Rightarrow>
                                    (let followupEmail = trim (normalizeAIText e emailResp);
                                         fin = Final summaryBullets actionItems followupEmail
                                     in case SalesAgent_fetch e (saveFinalRequest fin) d1 of
                                          (Inl f, d2) \<Rightarrow> (Inl f, d2)
                                        | (Inr resp, d2) \<Rightarrow> (Inr (), d2)))))))"

section \<open>The front door (index.ts)\<close>

text \<open>
  One isolate: the module-level array \<^verbatim>\<open>DEFAULT_STATE.messages\<close>, which every
  \<^verbatim>\<open>SalesAgent\<close> instance of the isolate shares, and the storage of each Durable
  Object, by the name of its id.
\<close>

record world =
  isolate_messages :: "message list"
  storages :: "string \<Rightarrow> AgentState option"

text \<open>\<^verbatim>\<open>env.SALES_AGENT.get(env.SALES_AGENT.idFromName(sessionId)).fetch(...)\<close>\<close>

definition stubFetch :: "env \<Rightarrow> jsval \<Rightarrow> request \<Rightarrow> world \<Rightarrow> (failure + response) \<times> world" where
  "stubFetch e sessionId r w =
     (let k = idFromName e sessionId;
          (res, d') = SalesAgent_fetch e r
            \<lparr>DEFAULT_STATE_messages = isolate_messages w, stored = storages w k\<rparr>
      in (res, \<lparr>isolate_messages = DEFAULT_STATE_messages d',
                storages = (storages w)(k := stored d')\<rparr>))"

definition bad_request :: "string \<Rightarrow> response" where
  "bad_request msg = \<lparr>status = 400, body = Text msg\<rparr>"

definition chatRequest :: "jsval \<Rightarrow> request" where
  "chatRequest message =
     \<lparr>pathname = ''/internal/chat'', httpMethod = ''POST'', query_sessionId = None,
      json = Inr (JObj [(''message'', message)])\<rparr>"

definition resetRequest :: request where
  "resetRequest =
     \<lparr>pathname = ''/internal/reset'', httpMethod = ''POST'', query_sessionId = None,
      json = Inl SyntaxError\<rparr>"

definition apiChat :: "env \<Rightarrow> request \<Rightarrow> world \<Rightarrow> (failure + response) \<times> world" where
  "apiChat e r w =
     (case json r of
        Inl f \<Rightarrow> (Inl f, w)
      | Inr b \<Rightarrow>
          if nullish b then (Inl TypeError, w)
          else if \<not> truthy (getProp b ''sessionId'') \<or> \<not> truthy (getProp b ''message'')
          then (Inr (bad_request ''Missing sessionId or message''), w)
          else stubFetch e (getProp b ''sessionId'') (chatRequest (getProp b ''message'')) w)"

text \<open>\<^verbatim>\<open>/api/results\<close> and \<^verbatim>\<open>/api/debug\<close> have the same body.\<close>

definition apiState :: "env \<Rightarrow> request \<Rightarrow> world \<Rightarrow> (failure + response) \<times> world" where
  "apiState e r w =
     (case query_sessionId r of
        None \<Rightarrow> (Inr (bad_request ''Missing sessionId''), w)
      | Some sid \<Rightarrow>
          if sid = [] then (Inr (bad_request ''Missing sessionId''), w)
          else stubFetch e (JStr sid) stateRequest w)"

definition apiEndCall :: "env \<Rightarrow> request \<Rightarrow> world \<Rightarrow> (failure + response) \<times> world" where
  "apiEndCall e r w =
     (case json r of
        Inl f \<Rightarrow> (Inl f, w)
      | Inr b \<Rightarrow>
          if nullish b then (Inl TypeError, w)
          else if \<not> truthy (getProp b ''sessionId'')
          then (Inr (bad_request ''Missing sessionId''), w)
          else (case FINALIZE_CALL_create e (getProp b ''sessionId'') of
                  Inl f \<Rightarrow> (Inl f, w)
                | Inr wid \<Rightarrow> (Inr (respond_json (WorkflowBody wid)), w)))"

definition apiReset :: "env \<Rightarrow> request \<Rightarrow> world \<Rightarrow> (failure + response) \<times> world" where
  "apiReset e r w =
     (case json r of
        Inl f \<Rightarrow> (Inl f, w)
      | Inr b \<Rightarrow>
          if nullish b then (Inl TypeError, w)
          else if \<not> truthy (getProp b ''sessionId'')
          then (Inr (bad_request ''Missing sessionId''), w)
          else stubFetch e (getProp b ''sessionId'') resetRequest w)"

definition worker_fetch :: "env \<Rightarrow> request \<Rightarrow> world \<Rightarrow> (failure + response) \<times> world" where
  "worker_fetch e r w =
     (if pathname r = ''/api/chat'' \<and> httpMethod r = ''POST'' then apiChat e r w
      else if pathname r = ''/'' \<and> httpMethod r = ''GET''
      then (Inr \<lparr>status = 200,
                 body = Text ''OK. Use POST /api/chat with JSON { sessionId, message }''\<rparr>, w)
      else if pathname r = ''/api/results'' \<and> httpMethod r = ''GET'' then apiState e r w
      else if pathname r = ''/api/debug'' \<and> httpMethod r = ''GET'' then apiState e r w
      else if pathname r = ''/api/end-call'' \<and> httpMethod r = ''POST'' then apiEndCall e r w
      else if pathname r = ''/api/reset'' \<and> httpMethod r = ''POST'' then apiReset e r w
      else (Inr not_found, w))"

section \<open>Observations used in the statements\<close>

text \<open>The state of a session as \<^verbatim>\<open>load\<close> yields it and \<^verbatim>\<open>/internal/state\<close> reports it.\<close>

definition view :: "DOState \<Rightarrow> AgentState" where
  "view d = fst (loaded d)"

text \<open>
  The state of a chat turn after step 1 (user message appended, counter incremented), for
  the request body \<open>b\<close>, and the prompts the two model calls of the turn are given.
\<close>

definition turnState :: "jsval \<Rightarrow> DOState \<Rightarrow> AgentState" where
  "turnState b d =
     (let (s0, shared) = loaded d;
          s1 = fst (push shared \<lparr>role = User, content = getProp b ''message''\<rparr> s0 d)
      in s1\<lparr>userTurnCount := userTurnCount s1 + 1\<rparr>)"

definition chatPromptOf :: "jsval \<Rightarrow> DOState \<Rightarrow> prompt" where
  "chatPromptOf b d =
     (let s2 = turnState b d
      in ChatPrompt (rollingSummary s2) (dealMemory s2) (lastN (messages s2) 10))"

definition memPromptOf :: "jsval \<Rightarrow> DOState \<Rightarrow> prompt" where
  "memPromptOf b d =
     (let s2 = turnState b d
      in MemPrompt (dealMemory s2) (rollingSummary s2) (lastN (messages s2) 10))"

text \<open>
  A string field of the deal memory is populated: it is a non-empty string. (A list field
  is populated when it is not the empty list.)
\<close>

fun populated :: "jsval \<Rightarrow> bool" where
  "populated (JStr s) = (s \<noteq> [])"
| "populated v = False"

text \<open>The \<^verbatim>\<open>final\<close> a save-final request supplies.\<close>

definition suppliedFinal :: "request \<Rightarrow> jsval" where
  "suppliedFinal r = (case json r of Inr b \<Rightarrow> getProp b ''final'' | Inl f \<Rightarrow> JUndefined)"



text \<open>
  What the extraction answer of a request parses to: defined when the request is a chat
  turn on which the memory update runs and the model answers.
\<close>

definition extractionOf :: "env \<Rightarrow> request \<Rightarrow> DOState \<Rightarrow> jsval option" where
  "extractionOf e r d =
     (if pathname r = ''/internal/chat'' \<and> httpMethod r = ''POST'' then
        (case json r of
           Inl f \<Rightarrow> None
         | Inr b \<Rightarrow>
             if isMemoryTurn (turnState b d) then
               (case AI_run e (memPromptOf b d) of
                  Inl f \<Rightarrow> None
                | Inr memResp \<Rightarrow> Some (memParsedOf e memResp))
             else None)
      else None)"

text \<open>
  An extraction result supplies an empty value for a field: for a string field, a value
  that is there (not \<^verbatim>\<open>null\<close>) and is not a non-empty string; for a list field,
  the empty array.
\<close>

definition suppliesEmptyString :: "jsval \<Rightarrow> string \<Rightarrow> bool" where
  "suppliesEmptyString p name = (\<not> nullish (getProp p name) \<and> \<not> populated (getProp p name))"

definition suppliesEmptyList :: "jsval \<Rightarrow> string \<Rightarrow> bool" where
  "suppliesEmptyList p name = (getProp p name = JArr [])"

definition isReset :: "request \<Rightarrow> bool" where
  "isReset r = (pathname r = ''/internal/reset'' \<and> httpMethod r = ''POST'')"

text \<open>
  The public routes as the interface table of the specification lists them, and as the
  front door has them.
\<close>

definition specRoutes :: "(string \<times> string) list" where
  "specRoutes =
     [(''POST'', ''/api/chat''), (''GET'', ''/api/results''), (''POST'', ''/api/end-call''),
      (''POST'', ''/api/reset''), (''GET'', ''/'')]"

definition codeRoutes :: "(string \<times> string) list" where
  "codeRoutes = specRoutes @ [(''GET'', ''/api/debug'')]"

section \<open>Example environments\<close>

text \<open>
  \<^verbatim>\<open>JSON.parse\<close> tabulated on the JSON texts the examples feed it; every other text
  they feed it (the empty text, a sentence of prose) is not JSON. \<^verbatim>\<open>JSON.stringify\<close> is not reached in
  the examples: the model's answers have the shape \<^verbatim>\<open>{ response: "..." }\<close>.
\<close>

definition exampleParse :: "string \<Rightarrow> jsval option" where
  \<open>exampleParse = map_of
     [(''{"customerName":"","painPoints":[]}'',
         JObj [(''customerName'', JStr []), (''painPoints'', JArr [])]),
      (''{"company":"Acme"}'', JObj [(''company'', JStr ''Acme'')]),
      (''{"reply":"Understood.","followUps":["Why now?","Who decides?"]}'',
         JObj [(''reply'', JStr ''Understood.''),
               (''followUps'', JArr [JStr ''Why now?'', JStr ''Who decides?''])]),
      (''{"reply":"Understood.","followUps":"??"}'',
         JObj [(''reply'', JStr ''Understood.''), (''followUps'', JStr ''??'')]),
      (''{"summaryBullets":["b1","b2","b3","b4","b5","b6","b7"]}'',
         JObj [(''summaryBullets'',
                JArr [JStr ''b1'', JStr ''b2'', JStr ''b3'', JStr ''b4'', JStr ''b5'',
                      JStr ''b6'', JStr ''b7''])]),
      (''{"actionItems":[{"owner":"Rep","item":"Send quote"}]}'',
         JObj [(''actionItems'',
                JArr [JObj [(''owner'', JStr ''Rep''), (''item'', JStr ''Send quote'')]])]),
      (''{"actionItems":[null]}'', JObj [(''actionItems'', JArr [JNull])])]\<close>

definition exampleEnv :: "(prompt \<Rightarrow> failure + jsval) \<Rightarrow> (site \<Rightarrow> bool) \<Rightarrow> env" where
  "exampleEnv ai ok =
     \<lparr>AI_run = ai, JSON_parse = exampleParse, JSON_stringify = Map.empty, storage_ok = ok,
      idFromName = (\<lambda>v. case v of JStr s \<Rightarrow> s | _ \<Rightarrow> []),
      FINALIZE_CALL_create = (\<lambda>v. Inr ''wf-1'')\<rparr>"

text \<open>A model answer with the given text.\<close>

definition answer :: "string \<Rightarrow> failure + jsval" where
  "answer t = Inr (JObj [(''response'', JStr t)])"

text \<open>A Durable Object just started, with nothing stored.\<close>

definition fresh :: DOState where
  "fresh = \<lparr>DEFAULT_STATE_messages = [], stored = None\<rparr>"

text \<open>A session after five turns, with part of its deal memory filled in.\<close>

definition session5 :: AgentState where
  "session5 =
     \<lparr>messages =
        [\<lparr>role = User, content = JStr ''u1''\<rparr>, \<lparr>role = Assistant, content = JStr ''a1''\<rparr>,
         \<lparr>role = User, content = JStr ''u2''\<rparr>, \<lparr>role = Assistant, content = JStr ''a2''\<rparr>,
         \<lparr>role = User, content = JStr ''u3''\<rparr>, \<lparr>role = Assistant, content = JStr ''a3''\<rparr>,
         \<lparr>role = User, content = JStr ''u4''\<rparr>, \<lparr>role = Assistant, content = JStr ''a4''\<rparr>,
         \<lparr>role = User, content = JStr ''u5''\<rparr>, \<lparr>role = Assistant, content = JStr ''a5''\<rparr>],
      dealMemory =
        \<lparr>customerName = JStr ''Dana'', company = JStr [], industry = JStr [],
         painPoints = [JStr ''slow onboarding''], budget = JStr [], timeline = JStr [],
         objections = [], nextSteps = []\<rparr>,
      rollingSummary = JStr ''Dana finds onboarding slow.'', userTurnCount = 5,
      final = JUndefined\<rparr>"

definition running :: DOState where
  "running = \<lparr>DEFAULT_STATE_messages = [], stored = Some session5\<rparr>"

text \<open>A model that answers the chat prompt with one text and the extraction prompt with another.\<close>

definition scriptedAI :: "string \<Rightarrow> string \<Rightarrow> prompt \<Rightarrow> failure + jsval" where
  "scriptedAI chatText memText p =
     (case p of MemPrompt dm rs ms \<Rightarrow> answer memText | _ \<Rightarrow> answer chatText)"

text \<open>A model that answers the chat prompt with a text and fails on the extraction prompt.\<close>

definition chatOnlyAI :: "string \<Rightarrow> prompt \<Rightarrow> failure + jsval" where
  "chatOnlyAI chatText p =
     (case p of MemPrompt dm rs ms \<Rightarrow> Inl AIError | _ \<Rightarrow> answer chatText)"

text \<open>A model that answers the three prompts of the finalization as given.\<close>

definition finalizeAI ::
  "(failure + jsval) \<Rightarrow> (failure + jsval) \<Rightarrow> (failure + jsval) \<Rightarrow> prompt \<Rightarrow> failure + jsval" where
  "finalizeAI summary actions email p =
     (case p of
        SumPrompt ms \<Rightarrow> summary
      | ActPrompt bs \<Rightarrow> actions
      | EmailPrompt bs items \<Rightarrow> email
      | _ \<Rightarrow> Inl AIError)"

text \<open>A front door with no session yet, and a request to the debug route.\<close>

definition noSessions :: world where
  "noSessions = \<lparr>isolate_messages = [], storages = (\<lambda>k. None)\<rparr>"

definition debugRequest :: request where
  "debugRequest =
     \<lparr>pathname = ''/api/debug'', httpMethod = ''GET'', query_sessionId = Some ''s1'',
      json = Inl SyntaxError\<rparr>"

section \<open>Facts about the helpers\<close>

lemmas js_defs = coalesce_def optProp_def safeJsonParse_def normalizeAIText_def
  extractBetween_def extractJsonObject_def extractJson_def slice_def trim_def isSpace_def
  startsWith_def lastN_def

lemmas do_defs = loaded_def load_def save_def push_def respond_json_def not_found_def
  chatParsed_def parseChatOutput_def mergeDealMemory_def memParsedOf_def isMemoryTurn_def
  memoryUpdate_def
  chatTry_def chatFallback_def chat_def getState_def saveFinal_def reset_def
  SalesAgent_fetch_def view_def turnState_def chatPromptOf_def memPromptOf_def

lemmas example_defs = exampleParse_def exampleEnv_def answer_def fresh_def chatRequest_def
  stateRequest_def saveFinalRequest_def resetRequest_def DEFAULT_DEAL_MEMORY_def
  session5_def running_def

lemmas workflow_defs = jsonOrRaw_def parseArrayProp_def summaryBulletsOf_def actionItemsOf_def
  Final_def FinalizeCallWorkflow_run_def finalizeAI_def

lemma indexOf_no_sublist: "\<not> sublist pat t \<Longrightarrow> indexOf t pat = - 1"
proof (induction t)
  case Nil
  then show ?case by auto
next
  case (Cons c cs)
  have split: "sublist pat (c # cs) \<longleftrightarrow> prefix pat (c # cs) \<or> sublist pat cs"
    by (rule sublist_Cons_right)
  from Cons.prems split have np: "\<not> prefix pat (c # cs)" and ns: "\<not> sublist pat cs"
    by blast+
  from Cons.IH[OF ns] have "indexOf cs pat = - 1" .
  with np show ?case by simp
qed

lemma indexOf_absent_char: "c \<notin> set t \<Longrightarrow> indexOf t [c] = - 1"
  by (induction t) (auto simp: Let_def)

lemma extractBetween_no_start: "\<not> sublist startTag t \<Longrightarrow> extractBetween t startTag endTag = None"
  by (simp add: extractBetween_def indexOf_no_sublist Let_def)

lemma extractJsonObject_no_brace: "CHR ''{'' \<notin> set t \<Longrightarrow> extractJsonObject t = None"
  using indexOf_absent_char[of "CHR ''{''" t]
  by (simp add: extractJsonObject_def Let_def)

lemma extractJson_plain:
  assumes "\<not> sublist ''<json>'' t" and "CHR ''{'' \<notin> set t"
  shows "extractJson t = []"
  by (simp add: extractJson_def extractBetween_no_start[OF assms(1)]
      extractJsonObject_no_brace[OF assms(2)])

lemma trim_set: "set (trim s) \<subseteq> set s"
proof -
  have "set (trim s) \<subseteq> set (dropWhile isSpace (rev (dropWhile isSpace s)))"
    by (simp add: trim_def)
  also have "\<dots> \<subseteq> set (rev (dropWhile isSpace s))"
    by (meson set_dropWhileD subsetI)
  also have "\<dots> \<subseteq> set s"
    using set_dropWhileD by fastforce
  finally show ?thesis .
qed

lemma startsWith_brace: "CHR ''{'' \<notin> set t \<Longrightarrow> \<not> startsWith (trim t) ''{''"
  using trim_set[of t] by (auto simp: startsWith_def prefix_def)

text \<open>
  A text with no opening tag and no opening brace is taken as the reply, whatever else it
  holds, as long as \<^verbatim>\<open>JSON.parse("")\<close> throws (it does).
\<close>

lemma parse_plain_text:
  assumes raw: "normalizeAIText e aiResp = rawText"
    and tags: "\<not> sublist ''<json>'' rawText"
    and brace: "CHR ''{'' \<notin> set rawText"
    and empty: "JSON_parse e [] = None"
  shows "parseChatOutput e aiResp = (JStr rawText, DEFAULT_FOLLOWUPS)"
proof -
  have j: "extractJson rawText = []" using tags brace by (rule extractJson_plain)
  have p: "safeJsonParse e [] = JNull" using empty by (simp add: safeJsonParse_def)
  have s: "\<not> startsWith (trim rawText) ''{''" using brace by (rule startsWith_brace)
  show ?thesis
    using s
    by (simp add: parseChatOutput_def chatParsed_def raw j p Let_def optProp_def coalesce_def)
qed

section \<open>Facts about a chat turn\<close>

lemma chatTry_success:
  assumes "chatTry e r d = (Inr resp, d')"
  shows "\<exists>b aiResp. json r = Inr b \<and> \<not> nullish b \<and> storage_ok e ChatLoad \<and> storage_ok e ChatSave
           \<and> AI_run e (chatPromptOf b d) = Inr aiResp
           \<and> reply (body resp) = fst (parseChatOutput e aiResp)
           \<and> followUps (body resp) = snd (parseChatOutput e aiResp)
           \<and> status resp = 200"
  using assms
  by (auto simp: chatTry_def load_def save_def chatPromptOf_def turnState_def push_def Let_def
        respond_json_def
      split: sum.splits prod.splits if_splits)

lemma chatTry_failure_stored:
  assumes "chatTry e r d = (Inl f, d')"
  shows "stored d' = stored d"
  using assms
  by (auto simp: chatTry_def load_def save_def push_def Let_def
      split: sum.splits prod.splits if_splits)

text \<open>
  A turn completes when the request body is read, the storage read and write succeed, the
  chat invocation answers and, on a memory turn, the extraction invocation answers too.
\<close>

lemma chatTry_completes:
  assumes "json r = Inr b" and "\<not> nullish b" and "storage_ok e ChatLoad"
    and "AI_run e (chatPromptOf b d) = Inr aiResp"
    and "isMemoryTurn (turnState b d) \<longrightarrow> (\<exists>m. AI_run e (memPromptOf b d) = Inr m)"
    and "storage_ok e ChatSave"
  shows "\<exists>resp d'. chatTry e r d = (Inr resp, d')"
  using assms
  by (auto simp: chatTry_def load_def save_def push_def chatPromptOf_def memPromptOf_def
        turnState_def memoryUpdate_def Let_def
      split: sum.splits prod.splits if_splits)

section \<open>Facts about the merge\<close>

lemma merge_falsy: "\<not> truthy p \<Longrightarrow> mergeDealMemory p s = s"
  by (simp add: mergeDealMemory_def)

lemma merge_string_fields:
  "customerName (dealMemory (mergeDealMemory p s)) =
     (if truthy p then coalesce (getProp p ''customerName'') (customerName (dealMemory s))
      else customerName (dealMemory s))"
  "company (dealMemory (mergeDealMemory p s)) =
     (if truthy p then coalesce (getProp p ''company'') (company (dealMemory s))
      else company (dealMemory s))"
  "industry (dealMemory (mergeDealMemory p s)) =
     (if truthy p then coalesce (getProp p ''industry'') (industry (dealMemory s))
      else industry (dealMemory s))"
  "budget (dealMemory (mergeDealMemory p s)) =
     (if truthy p then coalesce (getProp p ''budget'') (budget (dealMemory s))
      else budget (dealMemory s))"
  "timeline (dealMemory (mergeDealMemory p s)) =
     (if truthy p then coalesce (getProp p ''timeline'') (timeline (dealMemory s))
      else timeline (dealMemory s))"
  by (simp_all add: mergeDealMemory_def)

lemma merge_list_fields:
  "painPoints (dealMemory (mergeDealMemory p s)) =
     (if truthy p then arrayOr (getProp p ''painPoints'') (painPoints (dealMemory s))
      else painPoints (dealMemory s))"
  "objections (dealMemory (mergeDealMemory p s)) =
     (if truthy p then arrayOr (getProp p ''objections'') (objections (dealMemory s))
      else objections (dealMemory s))"
  "nextSteps (dealMemory (mergeDealMemory p s)) =
     (if truthy p then arrayOr (getProp p ''nextSteps'') (nextSteps (dealMemory s))
      else nextSteps (dealMemory s))"
  by (simp_all add: mergeDealMemory_def)

lemma arrayOr_not_array: "\<not> isArray v \<Longrightarrow> arrayOr v dflt = dflt"
  by (cases v) simp_all

lemma coalesce_nullish: "nullish v \<Longrightarrow> coalesce v dflt = dflt"
  by (simp add: coalesce_def)

lemma coalesce_present: "\<not> nullish v \<Longrightarrow> coalesce v dflt = v"
  by (simp add: coalesce_def)

lemma merge_nothing_provided:
  assumes "nullish (getProp p ''customerName'')" "nullish (getProp p ''company'')"
    "nullish (getProp p ''industry'')" "nullish (getProp p ''budget'')"
    "nullish (getProp p ''timeline'')" "\<not> isArray (getProp p ''painPoints'')"
    "\<not> isArray (getProp p ''objections'')" "\<not> isArray (getProp p ''nextSteps'')"
  shows "dealMemory (mergeDealMemory p s) = dealMemory s"
  using assms
  by (simp add: mergeDealMemory_def coalesce_nullish arrayOr_not_array)

text \<open>
  Claim C4. The merge keeps the prior value of every field the extraction result does not
  provide: a string field whose new value is \<^verbatim>\<open>null\<close> or missing, a list field
  whose new value is not an array. Hence the deal memory is unchanged by the merge of the
  empty object, of a falsy result, and of an answer \<^verbatim>\<open>JSON.parse\<close> rejects (then the
  whole state is unchanged, and the memory step of the turn returns it as it was); and a
  list field the result omits is left as it was.
\<close>

theorem C4_merge_retains_unprovided:
  "(nullish (getProp p ''customerName'') \<longrightarrow>
      customerName (dealMemory (mergeDealMemory p s)) = customerName (dealMemory s)) \<and>
   (nullish (getProp p ''company'') \<longrightarrow>
      company (dealMemory (mergeDealMemory p s)) = company (dealMemory s)) \<and>
   (nullish (getProp p ''industry'') \<longrightarrow>
      industry (dealMemory (mergeDealMemory p s)) = industry (dealMemory s)) \<and>
   (nullish (getProp p ''budget'') \<longrightarrow>
      budget (dealMemory (mergeDealMemory p s)) = budget (dealMemory s)) \<and>
   (nullish (getProp p ''timeline'') \<longrightarrow>
      timeline (dealMemory (mergeDealMemory p s)) = timeline (dealMemory s)) \<and>
   (\<not> isArray (getProp p ''painPoints'') \<longrightarrow>
      painPoints (dealMemory (mergeDealMemory p s)) = painPoints (dealMemory s)) \<and>
   (\<not> isArray (getProp p ''objections'') \<longrightarrow>
      objections (dealMemory (mergeDealMemory p s)) = objections (dealMemory s)) \<and>
   (\<not> isArray (getProp p ''nextSteps'') \<longrightarrow>
      nextSteps (dealMemory (mergeDealMemory p s)) = nextSteps (dealMemory s)) \<and>
   dealMemory (mergeDealMemory (JObj []) s) = dealMemory s \<and>
   (\<not> truthy p \<longrightarrow> mergeDealMemory p s = s) \<and>
   (JSON_parse e (extractJson (normalizeAIText e memResp)) = None \<longrightarrow>
      mergeDealMemory (memParsedOf e memResp) s = s) \<and>
   (AI_run e (MemPrompt (dealMemory s) (rollingSummary s) recent) = Inr memResp \<and>
    JSON_parse e (extractJson (normalizeAIText e memResp)) = None \<longrightarrow>
      memoryUpdate e recent s = Inr s)"
proof -
  have strings:
    "nullish (getProp p ''customerName'') \<longrightarrow>
      customerName (dealMemory (mergeDealMemory p s)) = customerName (dealMemory s)"
    "nullish (getProp p ''company'') \<longrightarrow>
      company (dealMemory (mergeDealMemory p s)) = company (dealMemory s)"
    "nullish (getProp p ''industry'') \<longrightarrow>
      industry (dealMemory (mergeDealMemory p s)) = industry (dealMemory s)"
    "nullish (getProp p ''budget'') \<longrightarrow>
      budget (dealMemory (mergeDealMemory p s)) = budget (dealMemory s)"
    "nullish (getProp p ''timeline'') \<longrightarrow>
      timeline (dealMemory (mergeDealMemory p s)) = timeline (dealMemory s)"
    by (simp_all add: merge_string_fields coalesce_nullish)
  have lists:
    "\<not> isArray (getProp p ''painPoints'') \<longrightarrow>
      painPoints (dealMemory (mergeDealMemory p s)) = painPoints (dealMemory s)"
    "\<not> isArray (getProp p ''objections'') \<longrightarrow>
      objections (dealMemory (mergeDealMemory p s)) = objections (dealMemory s)"
    "\<not> isArray (getProp p ''nextSteps'') \<longrightarrow>
      nextSteps (dealMemory (mergeDealMemory p s)) = nextSteps (dealMemory s)"
    by (simp_all add: merge_list_fields arrayOr_not_array)
  have empty_object: "dealMemory (mergeDealMemory (JObj []) s) = dealMemory s"
    by (rule merge_nothing_provided) simp_all
  have falsy: "\<not> truthy p \<longrightarrow> mergeDealMemory p s = s"
    by (simp add: merge_falsy)
  have unparseable: "JSON_parse e (extractJson (normalizeAIText e memResp)) = None \<longrightarrow>
      mergeDealMemory (memParsedOf e memResp) s = s"
    by (simp add: memParsedOf_def safeJsonParse_def merge_falsy)
  have step: "AI_run e (MemPrompt (dealMemory s) (rollingSummary s) recent) = Inr memResp \<and>
    JSON_parse e (extractJson (normalizeAIText e memResp)) = None \<longrightarrow>
      memoryUpdate e recent s = Inr s"
    using unparseable by (simp add: memoryUpdate_def)
  from strings lists empty_object falsy unparseable step show ?thesis
    by blast
qed

text \<open>
  An extraction result that provides only \<^verbatim>\<open>company\<close>: the name and the pain points
  of the session stay, the company is set.
\<close>

theorem C4_witness:
  "nullish (getProp (JObj [(''company'', JStr ''Acme'')]) ''customerName'') \<and>
   \<not> isArray (getProp (JObj [(''company'', JStr ''Acme'')]) ''painPoints'') \<and>
   customerName (dealMemory (mergeDealMemory (JObj [(''company'', JStr ''Acme'')]) session5))
     = JStr ''Dana'' \<and>
   painPoints (dealMemory (mergeDealMemory (JObj [(''company'', JStr ''Acme'')]) session5))
     = [JStr ''slow onboarding''] \<and>
   company (dealMemory (mergeDealMemory (JObj [(''company'', JStr ''Acme'')]) session5))
     = JStr ''Acme'' \<and>
   dealMemory (mergeDealMemory (JObj []) session5) = dealMemory session5"
proof -
  let ?p = "JObj [(''company'', JStr ''Acme'')]"
  have n: "nullish (getProp ?p ''customerName'')" and a: "\<not> isArray (getProp ?p ''painPoints'')"
    by simp_all
  have c: "company (dealMemory (mergeDealMemory ?p session5)) = JStr ''Acme''"
    by (simp add: merge_string_fields coalesce_def)
  have old: "customerName (dealMemory session5) = JStr ''Dana''"
    "painPoints (dealMemory session5) = [JStr ''slow onboarding'']"
    by (simp_all add: session5_def)
  from C4_merge_retains_unprovided[of ?p session5] n a c old show ?thesis
    by simp
qed

section \<open>The parse pipeline of a chat turn\<close>

text \<open>
  Claim C7, as stated, fails for the response: a turn whose chat answer is such a text can
  still throw after the parse. Here, on the sixth turn of a session, the chat answer is
  plain prose and the extraction invocation fails: the response carries the apology and
  no follow-ups.
\<close>

theorem C7_counterexample:
  "normalizeAIText (exampleEnv (chatOnlyAI ''Happy to help.'') (\<lambda>s. True))
     (JObj [(''response'', JStr ''Happy to help.'')]) = ''Happy to help.'' \<and>
   ''Happy to help.'' \<noteq> [] \<and>
   \<not> sublist ''<json>'' ''Happy to help.'' \<and> \<not> sublist ''</json>'' ''Happy to help.'' \<and>
   CHR ''{'' \<notin> set ''Happy to help.'' \<and> CHR ''}'' \<notin> set ''Happy to help.'' \<and>
   AI_run (exampleEnv (chatOnlyAI ''Happy to help.'') (\<lambda>s. True))
     (chatPromptOf (JObj [(''message'', JStr ''Too expensive'')]) running)
     = Inr (JObj [(''response'', JStr ''Happy to help.'')]) \<and>
   chat (exampleEnv (chatOnlyAI ''Happy to help.'') (\<lambda>s. True))
        (chatRequest (JStr ''Too expensive'')) running
     = (Inr (respond_json (ChatBody (JStr APOLOGY) (JArr []) (dealMemory session5) (JStr []) 0)),
        running) \<and>
   JStr APOLOGY \<noteq> JStr ''Happy to help.'' \<and> JArr [] \<noteq> DEFAULT_FOLLOWUPS"
  by (simp add: js_defs do_defs example_defs chatOnlyAI_def sublist_code APOLOGY_def
      DEFAULT_FOLLOWUPS_def Let_def)

text \<open>
  Claim C7, amended. When the model's chat output is a non-empty text with no
  \<^verbatim>\<open><json>\<close> tag and no brace, the parse pipeline yields the raw text as the reply
  and the two fixed questions as the follow-ups, and the response carries them whenever
  the turn completes without a thrown failure; it does complete, with status 200, when
  the request body is read, the storage read and write succeed and, on a memory turn, the
  extraction invocation answers. The built-in \<^verbatim>\<open>JSON.parse\<close> is a parameter; that it
  throws on the empty text is the one fact about it the statement needs.
\<close>

theorem C7_plain_text_is_reply:
  assumes raw: "normalizeAIText e aiResp = rawText"
    and nonempty: "rawText \<noteq> []"
    and open_tag: "\<not> sublist ''<json>'' rawText"
    and close_tag: "\<not> sublist ''</json>'' rawText"
    and open_brace: "CHR ''{'' \<notin> set rawText"
    and close_brace: "CHR ''}'' \<notin> set rawText"
    and empty: "JSON_parse e [] = None"
  shows "parseChatOutput e aiResp = (JStr rawText, DEFAULT_FOLLOWUPS) \<and>
         (json r = Inr b \<and> AI_run e (chatPromptOf b d) = Inr aiResp \<and>
          chatTry e r d = (Inr resp, d') \<longrightarrow>
          chat e r d = (Inr resp, d') \<and> reply (body resp) = JStr rawText
            \<and> followUps (body resp) = DEFAULT_FOLLOWUPS) \<and>
         (json r = Inr b \<and> \<not> nullish b \<and> storage_ok e ChatLoad \<and>
          AI_run e (chatPromptOf b d) = Inr aiResp \<and>
          (isMemoryTurn (turnState b d) \<longrightarrow> (\<exists>m. AI_run e (memPromptOf b d) = Inr m)) \<and>
          storage_ok e ChatSave \<longrightarrow>
          (\<exists>done_resp done_state. chat e r d = (Inr done_resp, done_state)
             \<and> status done_resp = 200 \<and> reply (body done_resp) = JStr rawText
             \<and> followUps (body done_resp) = DEFAULT_FOLLOWUPS))"
proof (intro conjI impI)
  show p: "parseChatOutput e aiResp = (JStr rawText, DEFAULT_FOLLOWUPS)"
    using raw open_tag open_brace empty by (rule parse_plain_text)
  have carried: "chat e r d = (Inr x, y) \<and> status x = 200 \<and> reply (body x) = JStr rawText
      \<and> followUps (body x) = DEFAULT_FOLLOWUPS"
    if ok: "chatTry e r d = (Inr x, y)" and b: "json r = Inr b"
      and ai: "AI_run e (chatPromptOf b d) = Inr aiResp" for x y
  proof -
    from chatTry_success[OF ok] b ai
    have "reply (body x) = fst (parseChatOutput e aiResp)"
      and "followUps (body x) = snd (parseChatOutput e aiResp)"
      and "status x = 200"
      by auto
    with p ok show ?thesis by (simp add: chat_def)
  qed
  {
    assume turn: "json r = Inr b \<and> AI_run e (chatPromptOf b d) = Inr aiResp \<and>
      chatTry e r d = (Inr resp, d')"
    with carried[of resp d']
    show "chat e r d = (Inr resp, d')" and "reply (body resp) = JStr rawText"
      and "followUps (body resp) = DEFAULT_FOLLOWUPS"
      by simp_all
  }
  {
    assume c: "json r = Inr b \<and> \<not> nullish b \<and> storage_ok e ChatLoad \<and>
      AI_run e (chatPromptOf b d) = Inr aiResp \<and>
      (isMemoryTurn (turnState b d) \<longrightarrow> (\<exists>m. AI_run e (memPromptOf b d) = Inr m)) \<and>
      storage_ok e ChatSave"
    then obtain x y where "chatTry e r d = (Inr x, y)"
      using chatTry_completes[of r b e d aiResp] by blast
    with carried[of x y] c
    show "\<exists>done_resp done_state. chat e r d = (Inr done_resp, done_state)
        \<and> status done_resp = 200 \<and> reply (body done_resp) = JStr rawText
        \<and> followUps (body done_resp) = DEFAULT_FOLLOWUPS"
      by blast
  }
qed

text \<open>The first turn of a session, answered in plain prose.\<close>

theorem C7_witness:
  "normalizeAIText (exampleEnv (\<lambda>p. answer ''Happy to help.'') (\<lambda>s. True))
     (JObj [(''response'', JStr ''Happy to help.'')]) = ''Happy to help.'' \<and>
   \<not> sublist ''<json>'' ''Happy to help.'' \<and> \<not> sublist ''</json>'' ''Happy to help.'' \<and>
   CHR ''{'' \<notin> set ''Happy to help.'' \<and> CHR ''}'' \<notin> set ''Happy to help.'' \<and>
   JSON_parse (exampleEnv (\<lambda>p. answer ''Happy to help.'') (\<lambda>s. True)) [] = None \<and>
   parseChatOutput (exampleEnv (\<lambda>p. answer ''Happy to help.'') (\<lambda>s. True))
     (JObj [(''response'', JStr ''Happy to help.'')]) = (JStr ''Happy to help.'', DEFAULT_FOLLOWUPS) \<and>
   fst (chat (exampleEnv (\<lambda>p. answer ''Happy to help.'') (\<lambda>s. True))
          (chatRequest (JStr ''Too expensive'')) fresh)
     = Inr (respond_json (ChatBody (JStr ''Happy to help.'') DEFAULT_FOLLOWUPS
              DEFAULT_DEAL_MEMORY (JStr []) 1))"
proof -
  let ?e = "exampleEnv (\<lambda>p. answer ''Happy to help.'') (\<lambda>s. True)"
  let ?a = "JObj [(''response'', JStr ''Happy to help.'')]"
  let ?r = "chatRequest (JStr ''Too expensive'')"
  let ?b = "JObj [(''message'', JStr ''Too expensive'')]"
  let ?resp = "respond_json (ChatBody (JStr ''Happy to help.'') DEFAULT_FOLLOWUPS
              DEFAULT_DEAL_MEMORY (JStr []) 1)"
  let ?d' = "\<lparr>DEFAULT_STATE_messages =
      [\<lparr>role = User, content = JStr ''Too expensive''\<rparr>,
       \<lparr>role = Assistant, content = JStr ''Happy to help.''\<rparr>],
     stored = Some \<lparr>messages =
        [\<lparr>role = User, content = JStr ''Too expensive''\<rparr>,
         \<lparr>role = Assistant, content = JStr ''Happy to help.''\<rparr>],
        dealMemory = DEFAULT_DEAL_MEMORY, rollingSummary = JStr [], userTurnCount = 1,
        final = JUndefined\<rparr>\<rparr>"
  have raw: "normalizeAIText ?e ?a = ''Happy to help.''"
    by (simp add: normalizeAIText_def)
  have ne: "''Happy to help.'' \<noteq> []" by simp
  have t1: "\<not> sublist ''<json>'' ''Happy to help.''"
    and t2: "\<not> sublist ''</json>'' ''Happy to help.''"
    by (simp_all add: sublist_code)
  have b1: "CHR ''{'' \<notin> set ''Happy to help.''" and b2: "CHR ''}'' \<notin> set ''Happy to help.''"
    by simp_all
  have em: "JSON_parse ?e [] = None"
    by (simp add: exampleEnv_def exampleParse_def)
  have body: "json ?r = Inr ?b" by (simp add: chatRequest_def)
  have ai: "AI_run ?e (chatPromptOf ?b fresh) = Inr ?a"
    by (simp add: exampleEnv_def answer_def)
  have turn: "chatTry ?e ?r fresh = (Inr ?resp, ?d')"
    by (simp add: js_defs do_defs example_defs Let_def)
  from C7_plain_text_is_reply[OF raw ne t1 t2 b1 b2 em, of ?r ?b fresh ?resp ?d'] body ai turn
  have "parseChatOutput ?e ?a = (JStr ''Happy to help.'', DEFAULT_FOLLOWUPS)"
    and "chat ?e ?r fresh = (Inr ?resp, ?d')"
    by simp_all
  with raw t1 t2 b1 b2 em show ?thesis by simp
qed

section \<open>Saving the final result\<close>

lemma saveFinal_step:
  assumes run: "saveFinal e r d = (res, d')"
  shows "messages (view d') = messages (view d) \<and> dealMemory (view d') = dealMemory (view d)
       \<and> rollingSummary (view d') = rollingSummary (view d)
       \<and> userTurnCount (view d') = userTurnCount (view d)
       \<and> DEFAULT_STATE_messages d' = DEFAULT_STATE_messages d
       \<and> (case res of Inr resp \<Rightarrow> final (view d') = suppliedFinal r | Inl f \<Rightarrow> d' = d)"
  using run
  by (auto simp: saveFinal_def load_def save_def loaded_def view_def suppliedFinal_def coalesce_def
      split: sum.splits prod.splits if_splits option.splits)

lemma fetch_saveFinal:
  "pathname r = ''/internal/save-final'' \<Longrightarrow> httpMethod r = ''POST'' \<Longrightarrow>
   SalesAgent_fetch e r d = saveFinal e r d"
  by (simp add: SalesAgent_fetch_def)

text \<open>
  Claim C10. The save-final operation changes nothing of the session but \<^verbatim>\<open>final\<close>:
  the messages, the deal memory, the rolling summary and the turn counter are afterwards
  what they were, and when the operation responds, \<^verbatim>\<open>final\<close> is the supplied value
  (when it throws, nothing is changed). A second invocation leaves the four fields as they
  were before the first and replaces \<^verbatim>\<open>final\<close> by its own value.
\<close>

theorem C10_save_final_sets_only_final:
  assumes first: "pathname r1 = ''/internal/save-final''" "httpMethod r1 = ''POST''"
    and run1: "SalesAgent_fetch e1 r1 d = (res1, d1)"
    and second: "pathname r2 = ''/internal/save-final''" "httpMethod r2 = ''POST''"
    and run2: "SalesAgent_fetch e2 r2 d1 = (res2, d2)"
  shows "messages (view d1) = messages (view d) \<and> dealMemory (view d1) = dealMemory (view d)
       \<and> rollingSummary (view d1) = rollingSummary (view d)
       \<and> userTurnCount (view d1) = userTurnCount (view d)
       \<and> (case res1 of Inr resp \<Rightarrow> final (view d1) = suppliedFinal r1 | Inl f \<Rightarrow> d1 = d)
       \<and> messages (view d2) = messages (view d) \<and> dealMemory (view d2) = dealMemory (view d)
       \<and> rollingSummary (view d2) = rollingSummary (view d)
       \<and> userTurnCount (view d2) = userTurnCount (view d)
       \<and> (case res2 of Inr resp \<Rightarrow> final (view d2) = suppliedFinal r2 | Inl f \<Rightarrow> d2 = d1)"
proof -
  from run1 have "saveFinal e1 r1 d = (res1, d1)" by (simp add: fetch_saveFinal[OF first])
  note s1 = saveFinal_step[OF this]
  from run2 have "saveFinal e2 r2 d1 = (res2, d2)" by (simp add: fetch_saveFinal[OF second])
  note s2 = saveFinal_step[OF this]
  from s1 s2 show ?thesis by simp
qed

text \<open>Two results saved one after the other into the session of five turns.\<close>

theorem C10_witness:
  "SalesAgent_fetch (exampleEnv (\<lambda>p. Inl AIError) (\<lambda>s. True)) (saveFinalRequest (JStr ''first'')) running
     = (Inr (respond_json OkBody), running\<lparr>stored := Some (session5\<lparr>final := JStr ''first''\<rparr>)\<rparr>) \<and>
   SalesAgent_fetch (exampleEnv (\<lambda>p. Inl AIError) (\<lambda>s. True)) (saveFinalRequest (JStr ''second''))
       (running\<lparr>stored := Some (session5\<lparr>final := JStr ''first''\<rparr>)\<rparr>)
     = (Inr (respond_json OkBody), running\<lparr>stored := Some (session5\<lparr>final := JStr ''second''\<rparr>)\<rparr>) \<and>
   final (view (running\<lparr>stored := Some (session5\<lparr>final := JStr ''first''\<rparr>)\<rparr>)) = JStr ''first'' \<and>
   final (view (running\<lparr>stored := Some (session5\<lparr>final := JStr ''second''\<rparr>)\<rparr>)) = JStr ''second'' \<and>
   messages (view (running\<lparr>stored := Some (session5\<lparr>final := JStr ''second''\<rparr>)\<rparr>))
     = messages (view running) \<and>
   dealMemory (view (running\<lparr>stored := Some (session5\<lparr>final := JStr ''second''\<rparr>)\<rparr>))
     = dealMemory (view running) \<and>
   userTurnCount (view (running\<lparr>stored := Some (session5\<lparr>final := JStr ''second''\<rparr>)\<rparr>)) = 5"
proof -
  let ?e = "exampleEnv (\<lambda>p. Inl AIError) (\<lambda>s. True)"
  let ?d1 = "running\<lparr>stored := Some (session5\<lparr>final := JStr ''first''\<rparr>)\<rparr>"
  let ?d2 = "running\<lparr>stored := Some (session5\<lparr>final := JStr ''second''\<rparr>)\<rparr>"
  have p1: "pathname (saveFinalRequest (JStr ''first'')) = ''/internal/save-final''"
    and m1: "httpMethod (saveFinalRequest (JStr ''first'')) = ''POST''"
    and p2: "pathname (saveFinalRequest (JStr ''second'')) = ''/internal/save-final''"
    and m2: "httpMethod (saveFinalRequest (JStr ''second'')) = ''POST''"
    by (simp_all add: saveFinalRequest_def)
  have r1: "SalesAgent_fetch ?e (saveFinalRequest (JStr ''first'')) running
      = (Inr (respond_json OkBody), ?d1)"
    by (simp add: js_defs do_defs example_defs)
  have r2: "SalesAgent_fetch ?e (saveFinalRequest (JStr ''second'')) ?d1
      = (Inr (respond_json OkBody), ?d2)"
    by (simp add: js_defs do_defs example_defs)
  have u: "userTurnCount (view running) = 5"
    by (simp add: js_defs do_defs example_defs)
  from C10_save_final_sets_only_final[OF p1 m1 r1 p2 m2 r2] r1 r2 u show ?thesis
    by (simp add: suppliedFinal_def saveFinalRequest_def)
qed

section \<open>The chat handler: follow-ups and the fallback\<close>


lemma chatFallback_ok:
  "storage_ok e ChatFallbackLoad \<Longrightarrow>
   chatFallback e d =
     Inr (respond_json (ChatBody (JStr APOLOGY) (JArr []) (dealMemory (view d)) (JStr []) 0))"
  by (simp add: chatFallback_def load_def view_def split: prod.splits)

lemma chatFallback_down:
  "\<not> storage_ok e ChatFallbackLoad \<Longrightarrow> chatFallback e d = Inl StorageError"
  by (simp add: chatFallback_def load_def)

lemma view_dealMemory:
  "dealMemory (view d) = (case stored d of None \<Rightarrow> DEFAULT_DEAL_MEMORY | Some t \<Rightarrow> dealMemory t)"
  by (simp add: view_def loaded_def split: option.splits)





lemma getProp_nullish: "nullish v \<Longrightarrow> getProp v name = JUndefined"
  by (cases v) simp_all






text \<open>
  Claim C6, as stated, fails: the fallback reads the stored state again, outside the
  \<^verbatim>\<open>try\<close>. When the storage is what failed, that read throws as well and the handler
  answers nothing.
\<close>

theorem C6_counterexample:
  "chat (exampleEnv (\<lambda>p. answer ''Happy to help.'') (\<lambda>s. False))
        (chatRequest (JStr ''Too expensive'')) running = (Inl StorageError, running)"
  by (simp add: js_defs do_defs example_defs Let_def)

text \<open>
  Claim C6, amended. When a failure is thrown in the chat pipeline and the fallback's own
  read of the stored state succeeds, the handler answers with status 200, the fixed
  apology, no follow-ups and the stored deal memory (the defaults when nothing is stored).
  When that read fails, its failure is what the handler throws.
\<close>

theorem C6_fallback_response:
  assumes fail: "chatTry e r d = (Inl f, d')"
  shows "(if storage_ok e ChatFallbackLoad
          then fst (chat e r d) =
                 Inr \<lparr>status = 200,
                      body = ChatBody (JStr APOLOGY) (JArr [])
                        (case stored d of None \<Rightarrow> DEFAULT_DEAL_MEMORY | Some t \<Rightarrow> dealMemory t)
                        (JStr []) 0\<rparr>
          else fst (chat e r d) = Inl StorageError)"
proof -
  have c: "chat e r d = (chatFallback e d', d')" using fail by (simp add: chat_def)
  have "stored d' = stored d" using fail by (rule chatTry_failure_stored)
  then have "dealMemory (view d') =
      (case stored d of None \<Rightarrow> DEFAULT_DEAL_MEMORY | Some t \<Rightarrow> dealMemory t)"
    by (simp add: view_dealMemory)
  then show ?thesis
    using c chatFallback_ok[of e d'] chatFallback_down[of e d']
    by (simp add: respond_json_def)
qed

text \<open>The model invocation fails on the sixth turn of a session; the storage works.\<close>

theorem C6_witness:
  "chatTry (exampleEnv (\<lambda>p. Inl AIError) (\<lambda>s. True)) (chatRequest (JStr ''Too expensive'')) running
     = (Inl AIError, running) \<and>
   storage_ok (exampleEnv (\<lambda>p. Inl AIError) (\<lambda>s. True)) ChatFallbackLoad \<and>
   fst (chat (exampleEnv (\<lambda>p. Inl AIError) (\<lambda>s. True)) (chatRequest (JStr ''Too expensive'')) running)
     = Inr \<lparr>status = 200,
            body = ChatBody (JStr APOLOGY) (JArr []) (dealMemory session5) (JStr []) 0\<rparr>"
proof -
  let ?e = "exampleEnv (\<lambda>p. Inl AIError) (\<lambda>s. True)"
  have t: "chatTry ?e (chatRequest (JStr ''Too expensive'')) running = (Inl AIError, running)"
    by (simp add: js_defs do_defs example_defs Let_def)
  have ok: "storage_ok ?e ChatFallbackLoad" by (simp add: exampleEnv_def)
  from C6_fallback_response[OF t] ok t show ?thesis
    by (simp add: running_def)
qed

section \<open>The deal memory across requests\<close>

lemma merge_dealMemory_cong:
  "dealMemory s = dealMemory t \<Longrightarrow>
   dealMemory (mergeDealMemory p s) = dealMemory (mergeDealMemory p t)"
  by (simp add: mergeDealMemory_def)

lemma turnState_dealMemory: "dealMemory (turnState b d) = dealMemory (view d)"
  by (simp add: turnState_def view_def push_def Let_def split: prod.splits)

lemma memoryUpdate_dealMemory:
  assumes "memoryUpdate e recent s = Inr s'"
  shows "dealMemory s' = dealMemory s \<or>
         (\<exists>memResp. isMemoryTurn s
            \<and> AI_run e (MemPrompt (dealMemory s) (rollingSummary s) recent) = Inr memResp
            \<and> s' = mergeDealMemory (memParsedOf e memResp) s)"
  using assms by (auto simp: memoryUpdate_def split: if_splits sum.splits)

lemma chatTry_stored:
  assumes "chatTry e r d = (res, d')"
  shows "stored d' = stored d \<or>
         (\<exists>b s3. json r = Inr b
            \<and> memoryUpdate e (lastN (messages (turnState b d)) 10) (turnState b d) = Inr s3
            \<and> (\<exists>t. stored d' = Some t \<and> dealMemory t = dealMemory s3))"
  using assms
  by (auto simp: chatTry_def load_def save_def push_def turnState_def Let_def
      split: sum.splits prod.splits if_splits)

lemma chatTry_dealMemory:
  assumes run: "chatTry e r d = (res, d')"
  shows "dealMemory (view d') = dealMemory (view d) \<or>
         (\<exists>b memResp. json r = Inr b \<and> isMemoryTurn (turnState b d)
            \<and> AI_run e (memPromptOf b d) = Inr memResp
            \<and> dealMemory (view d') = dealMemory (mergeDealMemory (memParsedOf e memResp) (view d)))"
proof -
  from chatTry_stored[OF run] consider
    (same) "stored d' = stored d"
    | (saved) b s3 t where "json r = Inr b"
        "memoryUpdate e (lastN (messages (turnState b d)) 10) (turnState b d) = Inr s3"
        "stored d' = Some t" "dealMemory t = dealMemory s3"
    by blast
  then show ?thesis
  proof cases
    case same
    then show ?thesis by (simp add: view_dealMemory)
  next
    case saved
    have v: "dealMemory (view d') = dealMemory s3"
      using saved(3,4) by (simp add: view_dealMemory)
    from memoryUpdate_dealMemory[OF saved(2)] show ?thesis
    proof
      assume "dealMemory s3 = dealMemory (turnState b d)"
      with v show ?thesis by (simp add: turnState_dealMemory)
    next
      assume "\<exists>memResp. isMemoryTurn (turnState b d) \<and>
        AI_run e (MemPrompt (dealMemory (turnState b d)) (rollingSummary (turnState b d))
          (lastN (messages (turnState b d)) 10)) = Inr memResp \<and>
        s3 = mergeDealMemory (memParsedOf e memResp) (turnState b d)"
      then obtain memResp where m: "isMemoryTurn (turnState b d)"
        "AI_run e (memPromptOf b d) = Inr memResp"
        "s3 = mergeDealMemory (memParsedOf e memResp) (turnState b d)"
        by (auto simp: memPromptOf_def Let_def)
      have "dealMemory s3 = dealMemory (mergeDealMemory (memParsedOf e memResp) (view d))"
        unfolding m(3) by (rule merge_dealMemory_cong) (rule turnState_dealMemory)
      with v m saved(1) show ?thesis by auto
    qed
  qed
qed

lemma keep_string:
  assumes old: "populated old"
    and new: "\<not> populated (if truthy p then coalesce (getProp p name) old else old)"
  shows "suppliesEmptyString p name"
proof -
  from old new have t: "truthy p" by (simp split: if_splits)
  with new have "\<not> populated (coalesce (getProp p name) old)" by simp
  with old show ?thesis
    by (simp add: coalesce_def suppliesEmptyString_def split: if_splits)
qed

lemma keep_list:
  assumes old: "old \<noteq> []"
    and new: "(if truthy p then arrayOr (getProp p name) old else old) = []"
  shows "suppliesEmptyList p name"
proof -
  from old new have "arrayOr (getProp p name) old = []" by (simp split: if_splits)
  with old show ?thesis
    unfolding suppliesEmptyList_def by (cases "getProp p name") simp_all
qed

lemma merge_keeps_populated:
  "populated (customerName (dealMemory s))
     \<and> \<not> populated (customerName (dealMemory (mergeDealMemory p s)))
     \<longrightarrow> suppliesEmptyString p ''customerName''"
  "populated (company (dealMemory s))
     \<and> \<not> populated (company (dealMemory (mergeDealMemory p s)))
     \<longrightarrow> suppliesEmptyString p ''company''"
  "populated (industry (dealMemory s))
     \<and> \<not> populated (industry (dealMemory (mergeDealMemory p s)))
     \<longrightarrow> suppliesEmptyString p ''industry''"
  "populated (budget (dealMemory s))
     \<and> \<not> populated (budget (dealMemory (mergeDealMemory p s)))
     \<longrightarrow> suppliesEmptyString p ''budget''"
  "populated (timeline (dealMemory s))
     \<and> \<not> populated (timeline (dealMemory (mergeDealMemory p s)))
     \<longrightarrow> suppliesEmptyString p ''timeline''"
  "painPoints (dealMemory s) \<noteq> [] \<and> painPoints (dealMemory (mergeDealMemory p s)) = []
     \<longrightarrow> suppliesEmptyList p ''painPoints''"
  "objections (dealMemory s) \<noteq> [] \<and> objections (dealMemory (mergeDealMemory p s)) = []
     \<longrightarrow> suppliesEmptyList p ''objections''"
  "nextSteps (dealMemory s) \<noteq> [] \<and> nextSteps (dealMemory (mergeDealMemory p s)) = []
     \<longrightarrow> suppliesEmptyList p ''nextSteps''"
  unfolding merge_string_fields merge_list_fields
  using keep_string keep_list by blast+

lemma fetch_dealMemory:
  assumes run: "SalesAgent_fetch e r d = (res, d')"
    and not_reset: "\<not> isReset r"
  shows "dealMemory (view d') = dealMemory (view d) \<or>
         (\<exists>p. extractionOf e r d = Some p
            \<and> dealMemory (view d') = dealMemory (mergeDealMemory p (view d)))"
proof (cases "pathname r = ''/internal/chat'' \<and> httpMethod r = ''POST''")
  case True
  with run have c: "chat e r d = (res, d')" by (simp add: SalesAgent_fetch_def)
  then have "chatTry e r d = (fst (chatTry e r d), d')"
    by (auto simp: chat_def split: prod.splits sum.splits)
  from chatTry_dealMemory[OF this] True show ?thesis
    by (auto simp: extractionOf_def)
next
  case False
  have "dealMemory (view d') = dealMemory (view d)"
  proof (cases "pathname r = ''/internal/save-final'' \<and> httpMethod r = ''POST''")
    case True
    with run have "saveFinal e r d = (res, d')" by (simp add: SalesAgent_fetch_def)
    from saveFinal_step[OF this] show ?thesis by simp
  next
    case nf: False
    with False not_reset run have "d' = d"
      by (auto simp: SalesAgent_fetch_def getState_def load_def isReset_def
          split: if_splits prod.splits)
    then show ?thesis by simp
  qed
  then show ?thesis by simp
qed

lemma fetch_reset:
  assumes run: "SalesAgent_fetch e r d = (res, d')" and "isReset r"
  shows "case res of Inr resp \<Rightarrow> dealMemory (view d') = DEFAULT_DEAL_MEMORY | Inl f \<Rightarrow> d' = d"
  using assms
  by (auto simp: SalesAgent_fetch_def isReset_def reset_def view_dealMemory split: if_splits)

text \<open>
  Claim C1, as stated, fails: the merge takes whatever the extraction result provides, an
  empty string and an empty array included. On the sixth turn of a session whose customer
  name and pain points are set, the model's extraction answer blanks both.
\<close>

theorem C1_counterexample: \<open>
  populated (customerName (dealMemory (view running))) \<and>
  painPoints (dealMemory (view running)) \<noteq> [] \<and>
  \<not> isReset (chatRequest (JStr ''Too expensive'')) \<and>
  customerName (dealMemory (view (snd (SalesAgent_fetch
      (exampleEnv (scriptedAI ''Happy to help.''
         ''<json>{"customerName":"","painPoints":[]}</json>'') (\<lambda>s. True))
      (chatRequest (JStr ''Too expensive'')) running)))) = JStr [] \<and>
  painPoints (dealMemory (view (snd (SalesAgent_fetch
      (exampleEnv (scriptedAI ''Happy to help.''
         ''<json>{"customerName":"","painPoints":[]}</json>'') (\<lambda>s. True))
      (chatRequest (JStr ''Too expensive'')) running)))) = []\<close>
  by (simp add: js_defs do_defs example_defs scriptedAI_def isReset_def Let_def)

text \<open>
  Claim C1, amended. A request other than a reset leaves a populated field of the deal
  memory populated, unless it is a chat turn whose extraction result itself supplies an
  empty value for that field: for a string field a value that is present and is not a
  non-empty string, for a list field the empty array. A reset that responds leaves the
  default (empty) deal memory; one that throws changes nothing.
\<close>

theorem C1_populated_until_overwritten:
  assumes run: "SalesAgent_fetch e r d = (res, d')"
  shows "(if isReset r
          then (case res of Inr resp \<Rightarrow> dealMemory (view d') = DEFAULT_DEAL_MEMORY | Inl f \<Rightarrow> d' = d)
          else
            (populated (customerName (dealMemory (view d)))
               \<and> \<not> populated (customerName (dealMemory (view d')))
               \<longrightarrow> (\<exists>p. extractionOf e r d = Some p \<and> suppliesEmptyString p ''customerName'')) \<and>
            (populated (company (dealMemory (view d)))
               \<and> \<not> populated (company (dealMemory (view d')))
               \<longrightarrow> (\<exists>p. extractionOf e r d = Some p \<and> suppliesEmptyString p ''company'')) \<and>
            (populated (industry (dealMemory (view d)))
               \<and> \<not> populated (industry (dealMemory (view d')))
               \<longrightarrow> (\<exists>p. extractionOf e r d = Some p \<and> suppliesEmptyString p ''industry'')) \<and>
            (populated (budget (dealMemory (view d)))
               \<and> \<not> populated (budget (dealMemory (view d')))
               \<longrightarrow> (\<exists>p. extractionOf e r d = Some p \<and> suppliesEmptyString p ''budget'')) \<and>
            (populated (timeline (dealMemory (view d)))
               \<and> \<not> populated (timeline (dealMemory (view d')))
               \<longrightarrow> (\<exists>p. extractionOf e r d = Some p \<and> suppliesEmptyString p ''timeline'')) \<and>
            (painPoints (dealMemory (view d)) \<noteq> [] \<and> painPoints (dealMemory (view d')) = []
               \<longrightarrow> (\<exists>p. extractionOf e r d = Some p \<and> suppliesEmptyList p ''painPoints'')) \<and>
            (objections (dealMemory (view d)) \<noteq> [] \<and> objections (dealMemory (view d')) = []
               \<longrightarrow> (\<exists>p. extractionOf e r d = Some p \<and> suppliesEmptyList p ''objections'')) \<and>
            (nextSteps (dealMemory (view d)) \<noteq> [] \<and> nextSteps (dealMemory (view d')) = []
               \<longrightarrow> (\<exists>p. extractionOf e r d = Some p \<and> suppliesEmptyList p ''nextSteps'')))"
proof (cases "isReset r")
  case True
  with fetch_reset[OF run] show ?thesis by simp
next
  case False
  note dm = fetch_dealMemory[OF run False]
  have str: "populated (f (dealMemory (view d))) \<and> \<not> populated (f (dealMemory (view d')))
       \<longrightarrow> (\<exists>p. extractionOf e r d = Some p \<and> suppliesEmptyString p name)"
    if k: "\<And>p s. populated (f (dealMemory s)) \<and> \<not> populated (f (dealMemory (mergeDealMemory p s)))
       \<longrightarrow> suppliesEmptyString p name"
    for f :: "DealMemory \<Rightarrow> jsval" and name
  proof (intro impI)
    assume a: "populated (f (dealMemory (view d))) \<and> \<not> populated (f (dealMemory (view d')))"
    with dm obtain p where p: "extractionOf e r d = Some p"
      "dealMemory (view d') = dealMemory (mergeDealMemory p (view d))"
      by auto
    with a k[of "view d" p] show "\<exists>p. extractionOf e r d = Some p \<and> suppliesEmptyString p name"
      by auto
  qed
  have lst: "f (dealMemory (view d)) \<noteq> [] \<and> f (dealMemory (view d')) = []
       \<longrightarrow> (\<exists>p. extractionOf e r d = Some p \<and> suppliesEmptyList p name)"
    if k: "\<And>p s. f (dealMemory s) \<noteq> [] \<and> f (dealMemory (mergeDealMemory p s)) = []
       \<longrightarrow> suppliesEmptyList p name"
    for f :: "DealMemory \<Rightarrow> jsval list" and name
  proof (intro impI)
    assume a: "f (dealMemory (view d)) \<noteq> [] \<and> f (dealMemory (view d')) = []"
    with dm obtain p where p: "extractionOf e r d = Some p"
      "dealMemory (view d') = dealMemory (mergeDealMemory p (view d))"
      by auto
    with a k[of "view d" p] show "\<exists>p. extractionOf e r d = Some p \<and> suppliesEmptyList p name"
      by auto
  qed
  note fields = str[of customerName, OF merge_keeps_populated(1)]
    str[of company, OF merge_keeps_populated(2)]
    str[of industry, OF merge_keeps_populated(3)]
    str[of budget, OF merge_keeps_populated(4)]
    str[of timeline, OF merge_keeps_populated(5)]
    lst[of painPoints, OF merge_keeps_populated(6)]
    lst[of objections, OF merge_keeps_populated(7)]
    lst[of nextSteps, OF merge_keeps_populated(8)]
  from fields False show ?thesis by simp
qed

text \<open>
  A sixth turn whose extraction result provides the company only: the customer name
  stays.
\<close>

theorem C1_witness: \<open>
  fst (SalesAgent_fetch
      (exampleEnv (scriptedAI ''Happy to help.'' ''<json>{"company":"Acme"}</json>'') (\<lambda>s. True))
      (chatRequest (JStr ''Too expensive'')) running)
    = Inr (respond_json (ChatBody (JStr ''Happy to help.'') DEFAULT_FOLLOWUPS
        (dealMemory (mergeDealMemory (JObj [(''company'', JStr ''Acme'')]) session5))
        (JStr ''Dana finds onboarding slow.'') 6)) \<and>
  \<not> isReset (chatRequest (JStr ''Too expensive'')) \<and>
  populated (customerName (dealMemory (view running))) \<and>
  extractionOf
      (exampleEnv (scriptedAI ''Happy to help.'' ''<json>{"company":"Acme"}</json>'') (\<lambda>s. True))
      (chatRequest (JStr ''Too expensive'')) running = Some (JObj [(''company'', JStr ''Acme'')]) \<and>
  \<not> suppliesEmptyString (JObj [(''company'', JStr ''Acme'')]) ''customerName'' \<and>
  populated (customerName (dealMemory (view (snd (SalesAgent_fetch
      (exampleEnv (scriptedAI ''Happy to help.'' ''<json>{"company":"Acme"}</json>'') (\<lambda>s. True))
      (chatRequest (JStr ''Too expensive'')) running)))))\<close>
proof -
  let ?e = \<open>exampleEnv (scriptedAI ''Happy to help.'' ''<json>{"company":"Acme"}</json>'') (\<lambda>s. True)\<close>
  let ?r = "chatRequest (JStr ''Too expensive'')"
  have res: "fst (SalesAgent_fetch ?e ?r running)
    = Inr (respond_json (ChatBody (JStr ''Happy to help.'') DEFAULT_FOLLOWUPS
        (dealMemory (mergeDealMemory (JObj [(''company'', JStr ''Acme'')]) session5))
        (JStr ''Dana finds onboarding slow.'') 6))"
    by (simp add: js_defs do_defs example_defs scriptedAI_def Let_def)
  have nr: "\<not> isReset ?r" by (simp add: isReset_def chatRequest_def)
  have before: "populated (customerName (dealMemory (view running)))"
    by (simp add: js_defs do_defs example_defs)
  have ex: "extractionOf ?e ?r running = Some (JObj [(''company'', JStr ''Acme'')])"
    by (simp add: extractionOf_def js_defs do_defs example_defs scriptedAI_def Let_def)
  have ns: "\<not> suppliesEmptyString (JObj [(''company'', JStr ''Acme'')]) ''customerName''"
    by (simp add: suppliesEmptyString_def)
  have run: "SalesAgent_fetch ?e ?r running
      = (fst (SalesAgent_fetch ?e ?r running), snd (SalesAgent_fetch ?e ?r running))"
    by simp
  from C1_populated_until_overwritten[OF run] nr before ex ns
  have "populated (customerName (dealMemory (view (snd (SalesAgent_fetch ?e ?r running)))))"
    by auto
  with res nr before ex ns show ?thesis by simp
qed

section \<open>A chat turn that throws\<close>

text \<open>
  What a failed turn does leave untouched: the storage, and for a session that has a
  stored state, everything.
\<close>

lemma chatTry_failure_atomic_when_stored:
  assumes "chatTry e r d = (Inl f, d')" and "stored d = Some t"
  shows "d' = d"
  using assms
  by (auto simp: chatTry_def load_def loaded_def save_def push_def Let_def
      split: sum.splits prod.splits if_splits)

text \<open>
  What it does not: on a session with nothing stored, the user message (and the reply,
  when the failure is the save's) stays on the shared array.
\<close>

lemma chatTry_failure_shared_push:
  assumes "chatTry e r d = (Inl f, d')" and "stored d = None"
    and "json r = Inr b" and "\<not> nullish b" and "storage_ok e ChatLoad"
  shows "\<exists>rest. DEFAULT_STATE_messages d' =
           DEFAULT_STATE_messages d @ \<lparr>role = User, content = getProp b ''message''\<rparr> # rest"
  using assms
  by (auto simp: chatTry_def load_def loaded_def save_def push_def Let_def
      split: sum.splits prod.splits if_splits)

text \<open>
  Claim C9 (the user message of a failed turn is discarded), at the input where the code
  departs from it: the first turn of a session, with the model invocation failing.
  Nothing is stored, but the user message was pushed on \<^verbatim>\<open>DEFAULT_STATE.messages\<close>
  (the array \<^verbatim>\<open>{ ...DEFAULT_STATE }\<close> shares), so the state the session then
  loads has it, and the next turn that succeeds persists it.
\<close>

theorem C9_failed_first_turn_keeps_message:
  "chat (exampleEnv (\<lambda>p. Inl AIError) (\<lambda>s. True)) (chatRequest (JStr ''Too expensive'')) fresh
     = (Inr (respond_json (ChatBody (JStr APOLOGY) (JArr []) DEFAULT_DEAL_MEMORY (JStr []) 0)),
        \<lparr>DEFAULT_STATE_messages = [\<lparr>role = User, content = JStr ''Too expensive''\<rparr>],
         stored = None\<rparr>) \<and>
   messages (view fresh) = [] \<and>
   messages (view \<lparr>DEFAULT_STATE_messages = [\<lparr>role = User, content = JStr ''Too expensive''\<rparr>],
                   stored = None\<rparr>)
     = [\<lparr>role = User, content = JStr ''Too expensive''\<rparr>] \<and>
   stored (snd (chat (exampleEnv (\<lambda>p. answer ''Happy to help.'') (\<lambda>s. True))
                  (chatRequest (JStr ''Still there?''))
                  \<lparr>DEFAULT_STATE_messages = [\<lparr>role = User, content = JStr ''Too expensive''\<rparr>],
                   stored = None\<rparr>))
     = Some \<lparr>messages =
               [\<lparr>role = User, content = JStr ''Too expensive''\<rparr>,
                \<lparr>role = User, content = JStr ''Still there?''\<rparr>,
                \<lparr>role = Assistant, content = JStr ''Happy to help.''\<rparr>],
             dealMemory = DEFAULT_DEAL_MEMORY, rollingSummary = JStr [], userTurnCount = 1,
             final = JUndefined\<rparr>"
  by (simp add: js_defs do_defs example_defs Let_def)

section \<open>The finalization workflow\<close>

lemma getState_ok:
  "storage_ok e StateLoad \<Longrightarrow> SalesAgent_fetch e stateRequest d = (Inr (respond_json (StateBody (view d))), d)"
  by (simp add: SalesAgent_fetch_def stateRequest_def getState_def load_def view_def split: prod.splits)

lemma getState_down:
  "\<not> storage_ok e StateLoad \<Longrightarrow> SalesAgent_fetch e stateRequest d = (Inl StorageError, d)"
  by (simp add: SalesAgent_fetch_def stateRequest_def getState_def load_def)

lemma saveFinal_request:
  "SalesAgent_fetch e (saveFinalRequest fin) d =
     (if storage_ok e SaveFinalLoad \<and> storage_ok e SaveFinalSave
      then (Inr (respond_json OkBody), d\<lparr>stored := Some ((view d)\<lparr>final := fin\<rparr>)\<rparr>)
      else (Inl StorageError, d))"
  by (simp add: SalesAgent_fetch_def saveFinalRequest_def saveFinal_def load_def save_def view_def
      split: prod.splits)

lemma run_success:
  assumes sid: "truthy sessionId"
    and rd: "storage_ok e StateLoad"
    and s1: "AI_run e (SumPrompt (messages (view d))) = Inr sumResp"
    and s2: "AI_run e (ActPrompt (summaryBulletsOf e sumResp)) = Inr actResp"
    and items: "\<not> list_ex nullish (actionItemsOf e actResp)"
    and s3: "AI_run e (EmailPrompt (summaryBulletsOf e sumResp) (actionItemsOf e actResp)) = Inr emailResp"
    and wr: "storage_ok e SaveFinalLoad" "storage_ok e SaveFinalSave"
  shows "FinalizeCallWorkflow_run e sessionId d =
     (Inr (), d\<lparr>stored := Some ((view d)\<lparr>final :=
        Final (summaryBulletsOf e sumResp) (actionItemsOf e actResp)
          (trim (normalizeAIText e emailResp))\<rparr>)\<rparr>)"
  using sid items
  by (simp add: FinalizeCallWorkflow_run_def getState_ok[OF rd] respond_json_def s1 s2 s3
      saveFinal_request wr Let_def)

lemma run_cases:
  assumes "FinalizeCallWorkflow_run e sessionId d = (res, d')"
  shows "(case res of
            Inl f \<Rightarrow> d' = d
          | Inr u \<Rightarrow> (\<exists>sumResp actResp emailResp.
               AI_run e (SumPrompt (messages (view d))) = Inr sumResp
             \<and> AI_run e (ActPrompt (summaryBulletsOf e sumResp)) = Inr actResp
             \<and> AI_run e (EmailPrompt (summaryBulletsOf e sumResp) (actionItemsOf e actResp)) = Inr emailResp
             \<and> d' = d\<lparr>stored := Some ((view d)\<lparr>final :=
                 Final (summaryBulletsOf e sumResp) (actionItemsOf e actResp)
                   (trim (normalizeAIText e emailResp))\<rparr>)\<rparr>))"
proof (cases "storage_ok e StateLoad")
  case False
  with assms show ?thesis
    by (auto simp: FinalizeCallWorkflow_run_def getState_down split: if_splits)
next
  case True
  with assms show ?thesis
    by (auto simp: FinalizeCallWorkflow_run_def getState_ok respond_json_def saveFinal_request Let_def
        split: if_splits sum.splits)
qed


lemma slice_prefix: "slice xs 0 6 = take 6 xs"
  by (simp add: slice_def)

lemma parseArrayProp_unparseable:
  "JSON_parse e (jsonOrRaw (normalizeAIText e resp)) = None \<Longrightarrow> parseArrayProp e name resp = []"
  by (simp add: parseArrayProp_def)

text \<open>
  Claim C8. Every finalization run that completes has written a \<^verbatim>\<open>final\<close> whose
  \<^verbatim>\<open>summaryBullets\<close> are the first six (at most) of the bullets parsed from the
  model's summary answer; a run that throws has written nothing.
\<close>

theorem C8_at_most_six_bullets:
  assumes run: "FinalizeCallWorkflow_run e sessionId d = (res, d')"
  shows "(case res of
            Inl f \<Rightarrow> stored d' = stored d
          | Inr u \<Rightarrow> (\<exists>s' bullets sumResp. stored d' = Some s'
               \<and> getProp (final s') ''summaryBullets'' = JArr bullets \<and> length bullets \<le> 6
               \<and> AI_run e (SumPrompt (messages (view d))) = Inr sumResp
               \<and> bullets = take 6 (summaryBulletsOf e sumResp)))"
proof (cases res)
  case (Inl f)
  with run_cases[OF run] show ?thesis by simp
next
  case (Inr u)
  with run_cases[OF run] obtain sumResp actResp emailResp where
    s1: "AI_run e (SumPrompt (messages (view d))) = Inr sumResp"
    and d': "d' = d\<lparr>stored := Some ((view d)\<lparr>final :=
                 Final (summaryBulletsOf e sumResp) (actionItemsOf e actResp)
                   (trim (normalizeAIText e emailResp))\<rparr>)\<rparr>"
    by auto
  let ?s' = "(view d)\<lparr>final := Final (summaryBulletsOf e sumResp) (actionItemsOf e actResp)
                   (trim (normalizeAIText e emailResp))\<rparr>"
  have "stored d' = Some ?s'" using d' by simp
  moreover have "getProp (final ?s') ''summaryBullets'' = JArr (take 6 (summaryBulletsOf e sumResp))"
    by (simp add: Final_def slice_prefix)
  moreover have "length (take 6 (summaryBulletsOf e sumResp)) \<le> 6" by simp
  ultimately show ?thesis using Inr s1 by auto
qed

text \<open>The model returns seven bullets; six are written.\<close>

theorem C8_witness: \<open>
  summaryBulletsOf
      (exampleEnv (finalizeAI
         (answer ''{"summaryBullets":["b1","b2","b3","b4","b5","b6","b7"]}'')
         (answer ''Here you go: {"actionItems":[{"owner":"Rep","item":"Send quote"}]}'')
         (answer ''  Hi Dana, thanks for your time today.  '')) (\<lambda>s. True))
      (JObj [(''response'', JStr ''{"summaryBullets":["b1","b2","b3","b4","b5","b6","b7"]}'')])
    = [JStr ''b1'', JStr ''b2'', JStr ''b3'', JStr ''b4'', JStr ''b5'', JStr ''b6'', JStr ''b7''] \<and>
  FinalizeCallWorkflow_run
      (exampleEnv (finalizeAI
         (answer ''{"summaryBullets":["b1","b2","b3","b4","b5","b6","b7"]}'')
         (answer ''Here you go: {"actionItems":[{"owner":"Rep","item":"Send quote"}]}'')
         (answer ''  Hi Dana, thanks for your time today.  '')) (\<lambda>s. True))
      (JStr ''s1'') running
    = (Inr (),
       running\<lparr>stored := Some (session5\<lparr>final :=
         JObj [(''summaryBullets'',
                JArr [JStr ''b1'', JStr ''b2'', JStr ''b3'', JStr ''b4'', JStr ''b5'', JStr ''b6'']),
               (''actionItems'',
                JArr [JObj [(''owner'', JStr ''Rep''), (''item'', JStr ''Send quote'')]]),
               (''followupEmail'', JStr ''Hi Dana, thanks for your time today.'')]\<rparr>)\<rparr>) \<and>
  length [JStr ''b1'', JStr ''b2'', JStr ''b3'', JStr ''b4'', JStr ''b5'', JStr ''b6''] \<le> 6\<close>
proof -
  let ?e = \<open>exampleEnv (finalizeAI
         (answer ''{"summaryBullets":["b1","b2","b3","b4","b5","b6","b7"]}'')
         (answer ''Here you go: {"actionItems":[{"owner":"Rep","item":"Send quote"}]}'')
         (answer ''  Hi Dana, thanks for your time today.  '')) (\<lambda>s. True)\<close>
  let ?d' = "running\<lparr>stored := Some (session5\<lparr>final :=
         JObj [(''summaryBullets'',
                JArr [JStr ''b1'', JStr ''b2'', JStr ''b3'', JStr ''b4'', JStr ''b5'', JStr ''b6'']),
               (''actionItems'',
                JArr [JObj [(''owner'', JStr ''Rep''), (''item'', JStr ''Send quote'')]]),
               (''followupEmail'', JStr ''Hi Dana, thanks for your time today.'')]\<rparr>)\<rparr>"
  have bullets: \<open>summaryBulletsOf ?e
      (JObj [(''response'', JStr ''{"summaryBullets":["b1","b2","b3","b4","b5","b6","b7"]}'')])
    = [JStr ''b1'', JStr ''b2'', JStr ''b3'', JStr ''b4'', JStr ''b5'', JStr ''b6'', JStr ''b7'']\<close>
    by (simp add: js_defs workflow_defs example_defs Let_def)
  have run: "FinalizeCallWorkflow_run ?e (JStr ''s1'') running = (Inr (), ?d')"
    by (simp add: js_defs do_defs workflow_defs example_defs Let_def)
  from C8_at_most_six_bullets[OF run]
  have "\<exists>s' bullets. stored ?d' = Some s'
      \<and> getProp (final s') ''summaryBullets'' = JArr bullets \<and> length bullets \<le> 6"
    by auto
  with bullets run show ?thesis by simp
qed

text \<open>
  Claim C3, as stated, fails, in two ways. No model invocation of the workflow stands in a
  \<^verbatim>\<open>try\<close>: here the summary step succeeds and the invocation of the action-items
  step fails, and the run throws, the email step does not run and no \<^verbatim>\<open>final\<close>
  is written. And the email prompt is built outside any \<^verbatim>\<open>try\<close>: here every
  invocation succeeds and the action-items answer is \<^verbatim>\<open>{"actionItems":[null]}\<close>,
  and the run throws on \<^verbatim>\<open>a.owner\<close> and writes nothing.
\<close>

theorem C3_counterexample: \<open>
  FinalizeCallWorkflow_run
      (exampleEnv (finalizeAI
         (answer ''{"summaryBullets":["b1","b2","b3","b4","b5","b6","b7"]}'')
         (Inl AIError)
         (answer ''  Hi Dana, thanks for your time today.  '')) (\<lambda>s. True))
      (JStr ''s1'') running
    = (Inl AIError, running) \<and>
  FinalizeCallWorkflow_run
      (exampleEnv (finalizeAI
         (answer ''{"summaryBullets":["b1","b2","b3","b4","b5","b6","b7"]}'')
         (answer ''{"actionItems":[null]}'')
         (answer ''  Hi Dana, thanks for your time today.  '')) (\<lambda>s. True))
      (JStr ''s1'') running
    = (Inl TypeError, running) \<and>
  final (view running) = JUndefined\<close>
  by (simp add: js_defs do_defs workflow_defs example_defs Let_def)

lemma parseArrayProp_not_array:
  "JSON_parse e (jsonOrRaw (normalizeAIText e resp)) = Some parsed \<Longrightarrow>
   \<not> isArray (getProp parsed name) \<Longrightarrow> parseArrayProp e name resp = []"
  by (simp add: parseArrayProp_def arrayOr_not_array)

lemma parseArrayProp_array:
  assumes "JSON_parse e (jsonOrRaw (normalizeAIText e resp)) = Some parsed"
    and "getProp parsed name = JArr xs"
  shows "parseArrayProp e name resp = xs"
proof -
  from assms(2) have "\<not> nullish parsed"
    using getProp_nullish[of parsed name] by auto
  with assms show ?thesis by (simp add: parseArrayProp_def)
qed

lemma run_summary_fails:
  assumes "truthy sessionId" and rd: "storage_ok e StateLoad"
    and "AI_run e (SumPrompt (messages (view d))) = Inl f"
  shows "FinalizeCallWorkflow_run e sessionId d = (Inl f, d)"
  using assms
  by (simp add: FinalizeCallWorkflow_run_def getState_ok[OF rd] respond_json_def)

lemma run_actions_fail:
  assumes "truthy sessionId" and rd: "storage_ok e StateLoad"
    and "AI_run e (SumPrompt (messages (view d))) = Inr sumResp"
    and "AI_run e (ActPrompt (summaryBulletsOf e sumResp)) = Inl f"
  shows "FinalizeCallWorkflow_run e sessionId d = (Inl f, d)"
  using assms
  by (simp add: FinalizeCallWorkflow_run_def getState_ok[OF rd] respond_json_def Let_def)

lemma run_email_fails:
  assumes "truthy sessionId" and rd: "storage_ok e StateLoad"
    and "AI_run e (SumPrompt (messages (view d))) = Inr sumResp"
    and "AI_run e (ActPrompt (summaryBulletsOf e sumResp)) = Inr actResp"
    and "\<not> list_ex nullish (actionItemsOf e actResp)"
    and "AI_run e (EmailPrompt (summaryBulletsOf e sumResp) (actionItemsOf e actResp)) = Inl f"
  shows "FinalizeCallWorkflow_run e sessionId d = (Inl f, d)"
  using assms
  by (simp add: FinalizeCallWorkflow_run_def getState_ok[OF rd] respond_json_def Let_def)

text \<open>
  Claim C3, amended, for a run with a session id whose state read succeeds. What is
  caught and defaulted is the parsing of a step's answer: a summary or action-items answer
  that \<^verbatim>\<open>JSON.parse\<close> rejects, or that parses to a value (\<^verbatim>\<open>null\<close> included)
  whose expected property is not an array, counts as the empty list, and an empty email
  answer as the empty text. When the three model invocations succeed, no parsed action
  item is \<^verbatim>\<open>null\<close> and the final write succeeds, the run completes and writes
  \<^verbatim>\<open>final\<close> from the three steps' values, so an unparseable answer of one step does
  not stop the later steps. A model invocation that fails is not caught: in the summary
  step, in the action-items step, and (when no parsed action item is \<^verbatim>\<open>null\<close>) in
  the email step, the run throws that failure and writes nothing.
\<close>

theorem C3_parse_failures_defaulted:
  assumes sid: "truthy sessionId"
    and rd: "storage_ok e StateLoad"
  shows
    "(AI_run e (SumPrompt (messages (view d))) = Inr sumResp \<and>
      AI_run e (ActPrompt (summaryBulletsOf e sumResp)) = Inr actResp \<and>
      \<not> list_ex nullish (actionItemsOf e actResp) \<and>
      AI_run e (EmailPrompt (summaryBulletsOf e sumResp) (actionItemsOf e actResp)) = Inr emailResp \<and>
      storage_ok e SaveFinalLoad \<and> storage_ok e SaveFinalSave \<longrightarrow>
      FinalizeCallWorkflow_run e sessionId d =
        (Inr (), d\<lparr>stored := Some ((view d)\<lparr>final :=
           Final (summaryBulletsOf e sumResp) (actionItemsOf e actResp)
             (trim (normalizeAIText e emailResp))\<rparr>)\<rparr>)) \<and>
     (AI_run e (SumPrompt (messages (view d))) = Inl f \<longrightarrow>
      FinalizeCallWorkflow_run e sessionId d = (Inl f, d)) \<and>
     (AI_run e (SumPrompt (messages (view d))) = Inr sumResp \<and>
      AI_run e (ActPrompt (summaryBulletsOf e sumResp)) = Inl f \<longrightarrow>
      FinalizeCallWorkflow_run e sessionId d = (Inl f, d)) \<and>
     (AI_run e (SumPrompt (messages (view d))) = Inr sumResp \<and>
      AI_run e (ActPrompt (summaryBulletsOf e sumResp)) = Inr actResp \<and>
      \<not> list_ex nullish (actionItemsOf e actResp) \<and>
      AI_run e (EmailPrompt (summaryBulletsOf e sumResp) (actionItemsOf e actResp)) = Inl f \<longrightarrow>
      FinalizeCallWorkflow_run e sessionId d = (Inl f, d)) \<and>
     (JSON_parse e (jsonOrRaw (normalizeAIText e sumResp)) = None \<longrightarrow>
        summaryBulletsOf e sumResp = []) \<and>
     (JSON_parse e (jsonOrRaw (normalizeAIText e sumResp)) = Some parsedSum \<and>
      \<not> isArray (getProp parsedSum ''summaryBullets'') \<longrightarrow>
        summaryBulletsOf e sumResp = []) \<and>
     (JSON_parse e (jsonOrRaw (normalizeAIText e sumResp)) = Some parsedSum \<and>
      getProp parsedSum ''summaryBullets'' = JArr bullets \<longrightarrow>
        summaryBulletsOf e sumResp = bullets) \<and>
     (JSON_parse e (jsonOrRaw (normalizeAIText e actResp)) = None \<longrightarrow>
        actionItemsOf e actResp = []) \<and>
     (JSON_parse e (jsonOrRaw (normalizeAIText e actResp)) = Some parsedAct \<and>
      \<not> isArray (getProp parsedAct ''actionItems'') \<longrightarrow>
        actionItemsOf e actResp = []) \<and>
     (JSON_parse e (jsonOrRaw (normalizeAIText e actResp)) = Some parsedAct \<and>
      getProp parsedAct ''actionItems'' = JArr items \<longrightarrow>
        actionItemsOf e actResp = items) \<and>
     (\<not> truthy emailResp \<longrightarrow> trim (normalizeAIText e emailResp) = [])"
proof -
  have completes:
    "AI_run e (SumPrompt (messages (view d))) = Inr sumResp \<and>
      AI_run e (ActPrompt (summaryBulletsOf e sumResp)) = Inr actResp \<and>
      \<not> list_ex nullish (actionItemsOf e actResp) \<and>
      AI_run e (EmailPrompt (summaryBulletsOf e sumResp) (actionItemsOf e actResp)) = Inr emailResp \<and>
      storage_ok e SaveFinalLoad \<and> storage_ok e SaveFinalSave \<longrightarrow>
      FinalizeCallWorkflow_run e sessionId d =
        (Inr (), d\<lparr>stored := Some ((view d)\<lparr>final :=
           Final (summaryBulletsOf e sumResp) (actionItemsOf e actResp)
             (trim (normalizeAIText e emailResp))\<rparr>)\<rparr>)"
    using run_success[OF sid rd] by blast
  have a1: "AI_run e (SumPrompt (messages (view d))) = Inl f \<longrightarrow>
      FinalizeCallWorkflow_run e sessionId d = (Inl f, d)"
    using run_summary_fails[OF sid rd] by blast
  have a2: "AI_run e (SumPrompt (messages (view d))) = Inr sumResp \<and>
      AI_run e (ActPrompt (summaryBulletsOf e sumResp)) = Inl f \<longrightarrow>
      FinalizeCallWorkflow_run e sessionId d = (Inl f, d)"
    using run_actions_fail[OF sid rd] by blast
  have a3: "AI_run e (SumPrompt (messages (view d))) = Inr sumResp \<and>
      AI_run e (ActPrompt (summaryBulletsOf e sumResp)) = Inr actResp \<and>
      \<not> list_ex nullish (actionItemsOf e actResp) \<and>
      AI_run e (EmailPrompt (summaryBulletsOf e sumResp) (actionItemsOf e actResp)) = Inl f \<longrightarrow>
      FinalizeCallWorkflow_run e sessionId d = (Inl f, d)"
    using run_email_fails[OF sid rd] by blast
  have s:
    "JSON_parse e (jsonOrRaw (normalizeAIText e sumResp)) = None \<longrightarrow>
        summaryBulletsOf e sumResp = []"
    "JSON_parse e (jsonOrRaw (normalizeAIText e sumResp)) = Some parsedSum \<and>
      \<not> isArray (getProp parsedSum ''summaryBullets'') \<longrightarrow>
        summaryBulletsOf e sumResp = []"
    "JSON_parse e (jsonOrRaw (normalizeAIText e sumResp)) = Some parsedSum \<and>
      getProp parsedSum ''summaryBullets'' = JArr bullets \<longrightarrow>
        summaryBulletsOf e sumResp = bullets"
    by (simp_all add: summaryBulletsOf_def parseArrayProp_unparseable parseArrayProp_not_array
        parseArrayProp_array)
  have a:
    "JSON_parse e (jsonOrRaw (normalizeAIText e actResp)) = None \<longrightarrow>
        actionItemsOf e actResp = []"
    "JSON_parse e (jsonOrRaw (normalizeAIText e actResp)) = Some parsedAct \<and>
      \<not> isArray (getProp parsedAct ''actionItems'') \<longrightarrow>
        actionItemsOf e actResp = []"
    "JSON_parse e (jsonOrRaw (normalizeAIText e actResp)) = Some parsedAct \<and>
      getProp parsedAct ''actionItems'' = JArr items \<longrightarrow>
        actionItemsOf e actResp = items"
    by (simp_all add: actionItemsOf_def parseArrayProp_unparseable parseArrayProp_not_array
        parseArrayProp_array)
  have m: "\<not> truthy emailResp \<longrightarrow> trim (normalizeAIText e emailResp) = []"
    by (simp add: normalizeAIText_def trim_def)
  from completes a1 a2 a3 s a m show ?thesis
    by (intro conjI)
qed

text \<open>The summary answer is prose, not JSON; the other two steps answer as asked.\<close>

theorem C3_witness: \<open>
  JSON_parse
      (exampleEnv (finalizeAI
         (answer ''I could not summarise this.'')
         (answer ''Here you go: {"actionItems":[{"owner":"Rep","item":"Send quote"}]}'')
         (answer ''  Hi Dana, thanks for your time today.  '')) (\<lambda>s. True))
      (jsonOrRaw ''I could not summarise this.'') = None \<and>
  FinalizeCallWorkflow_run
      (exampleEnv (finalizeAI
         (answer ''I could not summarise this.'')
         (answer ''Here you go: {"actionItems":[{"owner":"Rep","item":"Send quote"}]}'')
         (answer ''  Hi Dana, thanks for your time today.  '')) (\<lambda>s. True))
      (JStr ''s1'') running
    = (Inr (),
       running\<lparr>stored := Some (session5\<lparr>final :=
         JObj [(''summaryBullets'', JArr []),
               (''actionItems'',
                JArr [JObj [(''owner'', JStr ''Rep''), (''item'', JStr ''Send quote'')]]),
               (''followupEmail'', JStr ''Hi Dana, thanks for your time today.'')]\<rparr>)\<rparr>)\<close>
proof -
  let ?e = \<open>exampleEnv (finalizeAI
         (answer ''I could not summarise this.'')
         (answer ''Here you go: {"actionItems":[{"owner":"Rep","item":"Send quote"}]}'')
         (answer ''  Hi Dana, thanks for your time today.  '')) (\<lambda>s. True)\<close>
  let ?sum = "JObj [(''response'', JStr ''I could not summarise this.'')]"
  let ?act = \<open>JObj [(''response'',
      JStr ''Here you go: {"actionItems":[{"owner":"Rep","item":"Send quote"}]}'')]\<close>
  let ?email = "JObj [(''response'', JStr ''  Hi Dana, thanks for your time today.  '')]"
  have sid: "truthy (JStr ''s1'')" by simp
  have ok: "storage_ok ?e StateLoad" "storage_ok ?e SaveFinalLoad" "storage_ok ?e SaveFinalSave"
    by (simp_all add: exampleEnv_def)
  have unparseable: "JSON_parse ?e (jsonOrRaw ''I could not summarise this.'') = None"
    by (simp add: js_defs workflow_defs example_defs Let_def)
  have raw: "normalizeAIText ?e ?sum = ''I could not summarise this.''"
    by (simp add: normalizeAIText_def)
  have bullets: "summaryBulletsOf ?e ?sum = []"
    by (simp add: summaryBulletsOf_def parseArrayProp_def raw unparseable)
  have items: "actionItemsOf ?e ?act
      = [JObj [(''owner'', JStr ''Rep''), (''item'', JStr ''Send quote'')]]"
    by (simp add: js_defs workflow_defs example_defs Let_def)
  have s1: "AI_run ?e (SumPrompt (messages (view running))) = Inr ?sum"
    by (simp add: exampleEnv_def finalizeAI_def answer_def)
  have s2: "AI_run ?e (ActPrompt (summaryBulletsOf ?e ?sum)) = Inr ?act"
    by (simp add: exampleEnv_def finalizeAI_def answer_def)
  have nn: "\<not> list_ex nullish (actionItemsOf ?e ?act)"
    by (simp add: items)
  have s3: "AI_run ?e (EmailPrompt (summaryBulletsOf ?e ?sum) (actionItemsOf ?e ?act)) = Inr ?email"
    by (simp add: exampleEnv_def finalizeAI_def answer_def)
  have email: "trim (normalizeAIText ?e ?email) = ''Hi Dana, thanks for your time today.''"
    by (simp add: js_defs)
  have v: "view running = session5"
    by (simp add: js_defs do_defs example_defs)
  from C3_parse_failures_defaulted[OF sid ok(1), where d = running and sumResp = ?sum
      and actResp = ?act and emailResp = ?email] s1 s2 nn s3 ok(2) ok(3)
  have "FinalizeCallWorkflow_run ?e (JStr ''s1'') running =
     (Inr (), running\<lparr>stored := Some ((view running)\<lparr>final :=
        Final (summaryBulletsOf ?e ?sum) (actionItemsOf ?e ?act)
          (trim (normalizeAIText ?e ?email))\<rparr>)\<rparr>)"
    by simp
  then show ?thesis
    unfolding bullets items email v using unparseable by (simp add: Final_def slice_def)
qed

section \<open>The front door\<close>

lemma debug_not_listed: "(httpMethod debugRequest, pathname debugRequest) \<notin> set specRoutes"
  by (simp add: debugRequest_def specRoutes_def)

lemma debug_route: "worker_fetch e debugRequest w = apiState e debugRequest w"
  by (simp add: worker_fetch_def debugRequest_def)

lemma debug_state:
  "fst (apiState (exampleEnv (\<lambda>p. Inl AIError) (\<lambda>s. True)) debugRequest noSessions)
     = Inr \<lparr>status = 200, body = StateBody (view fresh)\<rparr>"
  by (simp add: apiState_def stubFetch_def debugRequest_def noSessions_def fresh_def SalesAgent_fetch_def
      stateRequest_def getState_def load_def exampleEnv_def respond_json_def view_def
      split: prod.splits)

text \<open>
  Claim C5, as stated, fails: the front door has a sixth route, \<^verbatim>\<open>GET /api/debug\<close>,
  which is not in the interface table and answers with the session's state.
\<close>

theorem C5_counterexample:
  "(httpMethod debugRequest, pathname debugRequest) \<notin> set specRoutes \<and>
   fst (worker_fetch (exampleEnv (\<lambda>p. Inl AIError) (\<lambda>s. True)) debugRequest noSessions)
     = Inr \<lparr>status = 200, body = StateBody (view fresh)\<rparr> \<and>
   (200 :: nat) \<noteq> 404"
  by (simp add: debug_not_listed debug_route debug_state)

text \<open>
  Claim C5, amended. A request whose method and path match none of the six routes of the
  front door (the five of the interface table and \<^verbatim>\<open>GET /api/debug\<close>) is answered
  with status 404, and no session is touched.
\<close>

theorem C5_unknown_route_404:
  assumes "(httpMethod r, pathname r) \<notin> set codeRoutes"
  shows "worker_fetch e r w = (Inr \<lparr>status = 404, body = Text ''Not found''\<rparr>, w)"
proof -
  from assms have
    "\<not> (pathname r = ''/api/chat'' \<and> httpMethod r = ''POST'')"
    "\<not> (pathname r = ''/'' \<and> httpMethod r = ''GET'')"
    "\<not> (pathname r = ''/api/results'' \<and> httpMethod r = ''GET'')"
    "\<not> (pathname r = ''/api/debug'' \<and> httpMethod r = ''GET'')"
    "\<not> (pathname r = ''/api/end-call'' \<and> httpMethod r = ''POST'')"
    "\<not> (pathname r = ''/api/reset'' \<and> httpMethod r = ''POST'')"
    unfolding codeRoutes_def specRoutes_def by fastforce+
  then show ?thesis
    unfolding worker_fetch_def not_found_def by (simp only: if_False)
qed

text \<open>The chat path with the wrong method.\<close>

theorem C5_witness:
  "(httpMethod \<lparr>pathname = ''/api/chat'', httpMethod = ''GET'', query_sessionId = None,
                 json = Inl SyntaxError\<rparr>,
    pathname \<lparr>pathname = ''/api/chat'', httpMethod = ''GET'', query_sessionId = None,
               json = Inl SyntaxError\<rparr>) \<notin> set codeRoutes \<and>
   worker_fetch (exampleEnv (\<lambda>p. Inl AIError) (\<lambda>s. True))
     \<lparr>pathname = ''/api/chat'', httpMethod = ''GET'', query_sessionId = None,
      json = Inl SyntaxError\<rparr> noSessions
   = (Inr \<lparr>status = 404, body = Text ''Not found''\<rparr>, noSessions)"
proof -
  let ?r = "\<lparr>pathname = ''/api/chat'', httpMethod = ''GET'', query_sessionId = None,
      json = Inl SyntaxError\<rparr>"
  have h: "(httpMethod ?r, pathname ?r) \<notin> set codeRoutes"
    by (simp add: codeRoutes_def specRoutes_def)
  from C5_unknown_route_404[OF h] h show ?thesis by simp
qed

end
